theory Spec2Isabelle
  imports Complex_Main
begin

section \<open>Numbers, errors and coordinate reference systems\<close>

text \<open>
  The module is Python 2 with \<^verbatim>\<open>from __future__ import division\<close>: \<^verbatim>\<open>/\<close> is true
  division.  Python floats are modelled as the reals (exact arithmetic, no rounding error),
  Python ints as \<^typ>\<open>int\<close>.  Every exception the code can raise is a value of
  the type \<open>error\<close>; a function that can raise returns \<open>error + 'a\<close> with \<open>Inl\<close> the
  exception.

  The design document names failure kinds rather than Python classes.  In the code,
  its \<open>UnsupportedCRS\<close> is the \<^verbatim>\<open>KeyError\<close> of the lookup in \<^verbatim>\<open>EXTENTS\<close> (re-raised by
  \<^verbatim>\<open>read_window\<close> as \<^verbatim>\<open>Exception("Unsupported CRS: ...")\<close>), and its \<open>InvalidShape\<close> is
  the \<^verbatim>\<open>ZeroDivisionError\<close> of dividing by a zero width or height.
\<close>

datatype error =
    KeyError string
  | ZeroDivisionError
  | ValueError
  | Exception string
  | LibraryError string

text \<open>
  A CRS object is used through \<^verbatim>\<open>str(crs)\<close> (the key into \<^verbatim>\<open>EXTENTS\<close>), through
  \<^verbatim>\<open>crs.is_geographic\<close> and through \<^verbatim>\<open>==\<close>.
\<close>

datatype crs = CRS (crs_str: string) (is_geographic: bool)

definition WEB_MERCATOR_CRS :: crs where
  "WEB_MERCATOR_CRS = CRS ''EPSG:3857'' False"

definition WGS84_CRS :: crs where
  "WGS84_CRS = CRS ''EPSG:4326'' True"

text \<open>Bounds are the 4-tuple (left, bottom, right, top); a shape is (height, width).\<close>

type_synonym bounds = "real \<times> real \<times> real \<times> real"
type_synonym shape = "int \<times> int"

definition EXTENTS :: "(string \<times> bounds) list" where
  "EXTENTS =
     [(crs_str WEB_MERCATOR_CRS,
        (- 20037508.342789244, - 20037508.342789244, 20037508.342789244, 20037508.342789244)),
      (crs_str WGS84_CRS, (- 180, - 90, 180, 90))]"

definition get_extent :: "crs \<Rightarrow> error + bounds" where
  "get_extent crs =
     (case map_of EXTENTS (crs_str crs) of
        None \<Rightarrow> Inl (KeyError (crs_str crs))
      | Some extent \<Rightarrow> Inr extent)"

section \<open>Resolution\<close>

text \<open>
  \<^verbatim>\<open>rasterio.transform.from_bounds(west, south, east, north, width, height)\<close> is
  \<^verbatim>\<open>Affine.translation(west, north) * Affine.scale((east - west) / width, (south - north) / height)\<close>;
  the two divisions raise \<^verbatim>\<open>ZeroDivisionError\<close> on a zero width or height.
\<close>

record affine =
  aff_a :: real
  aff_b :: real
  aff_c :: real
  aff_d :: real
  aff_e :: real
  aff_f :: real

definition Affine :: "real \<Rightarrow> real \<Rightarrow> real \<Rightarrow> real \<Rightarrow> real \<Rightarrow> real \<Rightarrow> affine" where
  "Affine a b c d e f = \<lparr>aff_a = a, aff_b = b, aff_c = c, aff_d = d, aff_e = e, aff_f = f\<rparr>"

definition from_bounds :: "bounds \<Rightarrow> int \<Rightarrow> int \<Rightarrow> error + affine" where
  "from_bounds bnds width height =
     (case bnds of (west, south, east, north) \<Rightarrow>
        if width = 0 \<or> height = 0 then Inl ZeroDivisionError
        else Inr (Affine ((east - west) / of_int width) 0 west
                         0 ((south - north) / of_int height) north))"

definition get_resolution :: "bounds \<times> crs \<Rightarrow> shape \<Rightarrow> error + real \<times> real" where
  "get_resolution bc shp =
     (case (bc, shp) of ((bnds, crs), (height, width)) \<Rightarrow>
        (case from_bounds bnds width height of
           Inl err \<Rightarrow> Inl err
         | Inr t \<Rightarrow> Inr (\<bar>aff_a t\<bar>, \<bar>aff_e t\<bar>)))"

text \<open>
  \<^verbatim>\<open>haversine\<close> is the great-circle distance of the \<^verbatim>\<open>haversine\<close> package (kilometres,
  a float); it is a parameter of the model.
\<close>

definition get_resolution_in_meters ::
  "(real \<times> real \<Rightarrow> real \<times> real \<Rightarrow> real) \<Rightarrow> bounds \<times> crs \<Rightarrow> shape \<Rightarrow> error + real \<times> real" where
  "get_resolution_in_meters haversine bc shp =
     (case (bc, shp) of ((bnds, crs), (height, width)) \<Rightarrow>
        (case bnds of (b0, b1, b2, b3) \<Rightarrow>
           if is_geographic crs then
             (let left = (b0, (b1 + b3) / 2);
                  right = (b2, (b1 + b3) / 2);
                  top = ((b0 + b2) / 2, b3);
                  bottom = ((b0 + b2) / 2, b1)
              in if width = 0 then Inl ZeroDivisionError
                 else if height = 0 then Inl ZeroDivisionError
                 else Inr (haversine left right * 1000 / of_int width,
                           haversine top bottom * 1000 / of_int height))
           else get_resolution (bnds, crs) (height, width)))"

section \<open>Zoom\<close>

text \<open>
  \<^verbatim>\<open>int(x)\<close> truncates a float towards zero; Python 2's \<^verbatim>\<open>round\<close> rounds halves away from
  zero and returns a float, as \<^verbatim>\<open>math.ceil\<close> does.  \<^verbatim>\<open>math.log\<close> raises \<^verbatim>\<open>ValueError\<close>
  outside its domain.
\<close>

definition py_int :: "real \<Rightarrow> int" where
  "py_int x = (if 0 \<le> x then \<lfloor>x\<rfloor> else \<lceil>x\<rceil>)"

definition py_round :: "real \<Rightarrow> real" where
  "py_round x = (if 0 \<le> x then of_int \<lfloor>x + 1 / 2\<rfloor> else of_int \<lceil>x - 1 / 2\<rceil>)"

definition math_ceil :: "real \<Rightarrow> real" where
  "math_ceil x = of_int \<lceil>x\<rceil>"

definition math_log :: "real \<Rightarrow> error + real" where
  "math_log x = (if x \<le> 0 then Inl ValueError else Inr (ln x))"

definition get_zoom :: "real \<Rightarrow> (real \<Rightarrow> real) \<Rightarrow> error + int" where
  "get_zoom resolution op =
     (if resolution * 256 = 0 then Inl ZeroDivisionError
      else case math_log ((2 * pi * 6378137) / (resolution * 256)) of
             Inl err \<Rightarrow> Inl err
           | Inr l \<Rightarrow> Inr (py_int (op (l / ln 2))))"

section \<open>Arrays and slicing\<close>

text \<open>
  A numpy array of rank 2 or 3 is a nested list, outermost axis first.  \<open>shape3\<close> reads
  the axis lengths off the first element along each axis, which is numpy's \<^verbatim>\<open>.shape\<close>
  for every rectangular array with no empty axis; \<open>has_shape3\<close> says that an array is
  rectangular with the given axis lengths.

  A slice \<^verbatim>\<open>xs[start:stop]\<close> clips both bounds to the sequence: a negative bound counts
  from the end, a bound beyond the end is the end.
\<close>

definition shape3 :: "'a list list list \<Rightarrow> int \<times> int \<times> int" where
  "shape3 arr =
     (int (length arr),
      (case arr of [] \<Rightarrow> 0 | plane # _ \<Rightarrow> int (length plane)),
      (case arr of (line # _) # _ \<Rightarrow> int (length line) | _ \<Rightarrow> 0))"

definition has_shape2 :: "'a list list \<Rightarrow> int \<times> int \<Rightarrow> bool" where
  "has_shape2 arr dims =
     (case dims of (d0, d1) \<Rightarrow>
        int (length arr) = d0 \<and> list_all (\<lambda>line. int (length line) = d1) arr)"

definition has_shape3 :: "'a list list list \<Rightarrow> int \<times> int \<times> int \<Rightarrow> bool" where
  "has_shape3 arr dims =
     (case dims of (d0, d1, d2) \<Rightarrow>
        int (length arr) = d0 \<and> list_all (\<lambda>plane. has_shape2 plane (d1, d2)) arr)"

definition slice_index :: "int \<Rightarrow> nat \<Rightarrow> nat" where
  "slice_index i n = (if i < 0 then nat (max 0 (i + int n)) else min (nat i) n)"

definition py_slice :: "int \<Rightarrow> int \<Rightarrow> 'a list \<Rightarrow> 'a list" where
  "py_slice start stop xs =
     (let lo = slice_index start (length xs);
          hi = slice_index stop (length xs)
      in take (hi - lo) (drop lo xs))"

definition slice_len :: "int \<Rightarrow> int \<Rightarrow> int \<Rightarrow> int" where
  "slice_len start stop n = int (slice_index stop (nat n) - slice_index start (nat n))"

section \<open>Crop\<close>

definition upper_char :: "char \<Rightarrow> char" where
  "upper_char ch =
     (let n = (of_char ch :: nat) in if 97 \<le> n \<and> n \<le> 122 then char_of (n - 32) else ch)"

definition isimage :: "string \<Rightarrow> bool" where
  "isimage data_format = (map upper_char data_format \<in> set [''RGB'', ''RGBA''])"

text \<open>
  A window is the pair of its row range and its column range, as the code unpacks it
  (\<^verbatim>\<open>r, c = dst_window\<close>).  The constructor \<^verbatim>\<open>windows.Window\<close> and \<^verbatim>\<open>windows.bounds\<close>
  belong to rasterio and are parameters of \<open>crop\<close>.  The offset \<^verbatim>\<open>top\<close> is written
  \<open>top'\<close>.
\<close>

type_synonym window = "(int \<times> int) \<times> (int \<times> int)"

definition num_rows :: "window \<Rightarrow> int" where
  "num_rows w = (case w of ((r0, r1), _) \<Rightarrow> r1 - r0)"

definition num_cols :: "window \<Rightarrow> int" where
  "num_cols w = (case w of (_, (c0, c1)) \<Rightarrow> c1 - c0)"

definition from_ranges :: "int \<times> int \<Rightarrow> int \<times> int \<Rightarrow> window" where
  "from_ranges row_range col_range = (row_range, col_range)"

definition crop ::
  "(int \<Rightarrow> int \<Rightarrow> int \<Rightarrow> int \<Rightarrow> window) \<Rightarrow> (window \<Rightarrow> affine \<Rightarrow> bounds) \<Rightarrow>
   'a list list list \<times> (bounds \<times> crs) \<Rightarrow> string \<Rightarrow> int \<times> int \<times> int \<times> int \<Rightarrow>
   error + 'a list list list \<times> (bounds option \<times> crs option)" where
  "crop Window windows_bounds pixels data_format offsets =
     (case (pixels, offsets) of ((data, (bnds, data_crs)), (left, right, bottom, top')) \<Rightarrow>
        if isimage data_format then
          (case shape3 data of (width, height, _) \<Rightarrow>
             Inr (map (py_slice left (width - right)) (py_slice top' (height - bottom) data),
                  (None, None)))
        else
          (case shape3 data of (_, height, width) \<Rightarrow>
             (case from_bounds bnds width height of
                Inl err \<Rightarrow> Inl err
              | Inr t \<Rightarrow>
                  (let data' = map (\<lambda>band. map (py_slice left (width - right))
                                             (py_slice top' (height - bottom) band)) data;
                       cropped_window =
                         Window left top' (slice_len top' (height - bottom) height)
                                         (slice_len left (width - right) width);
                       cropped_bounds = windows_bounds cropped_window t
                   in Inr (data', (Some cropped_bounds, Some data_crs))))))"

section \<open>Sequencing of calls that can raise\<close>

definition ebind :: "error + 'a \<Rightarrow> ('a \<Rightarrow> error + 'b) \<Rightarrow> error + 'b" where
  "ebind m f = (case m of Inl err \<Rightarrow> Inl err | Inr x \<Rightarrow> f x)"

section \<open>The raster-access capability and the other libraries\<close>

text \<open>
  What rasterio, scipy and haversine do is not part of this module: a dataset, a warped
  view and the library functions are parameters.  A read returns the dtype of the stored
  pixels (the code only asks whether it is a float type) and the cells.
\<close>

datatype dtype = Integer_dtype | Float_dtype

record 'c ndarray =
  dtype :: dtype
  cells :: 'c

record ('c, 'm) masked_array =
  ma_dtype :: dtype
  ma_data :: 'c
  ma_mask :: 'm

type_synonym marray2 = "(real list list, bool list list) masked_array"
type_synonym marray3 = "(real list list list, bool list list list) masked_array"

record src =
  src_bounds :: bounds
  src_crs :: crs
  src_height :: int
  src_width :: int
  src_nodata :: "real option"
  src_name :: string
  src_transform :: affine

record vrt =
  vrt_count :: int
  vrt_nodata :: "real option"
  vrt_transform :: affine
  vrt_window :: "bounds \<Rightarrow> error + window"
  vrt_read_band :: "int \<Rightarrow> window \<Rightarrow> error + real list list ndarray"
  vrt_read :: "int \<times> int \<times> int \<Rightarrow> window \<Rightarrow> error + real list list list ndarray"

datatype resampling = Lanczos

record warp_args =
  wa_src_crs :: "crs option"
  wa_src_transform :: "affine option"
  wa_src_nodata :: "real option"
  wa_dst_crs :: crs
  wa_dst_width :: real
  wa_dst_height :: real
  wa_dst_transform :: affine
  wa_resampling :: "resampling option"

record libraries =
  haversine :: "real \<times> real \<Rightarrow> real \<times> real \<Rightarrow> real"
  rasterio_open :: "string \<Rightarrow> crs \<Rightarrow> error + src"
  WarpedVRT :: "src \<Rightarrow> warp_args \<Rightarrow> error + vrt"
  windows_from_bounds :: "bounds \<Rightarrow> affine \<Rightarrow> error + window"
  windows_bounds :: "window \<Rightarrow> affine \<Rightarrow> bounds"
  Window :: "int \<Rightarrow> int \<Rightarrow> int \<Rightarrow> int \<Rightarrow> window"
  RectBivariateSpline ::
    "real list \<Rightarrow> real list \<Rightarrow> real list list \<Rightarrow>
     error + (real list \<Rightarrow> real list \<Rightarrow> real list list)"

section \<open>Masks\<close>

text \<open>
  \<^verbatim>\<open>_mask\<close> masks the cells equal to nodata: \<^verbatim>\<open>np.ma.masked_values\<close> (equal within
  \<^verbatim>\<open>atol=1e-8 + rtol=1e-5 * |nodata|\<close>) for a float dtype, \<^verbatim>\<open>np.ma.masked_equal\<close> otherwise.
  It is used at rank 2 (\<open>mask2\<close>) and at rank 3 (\<open>mask3\<close>).
\<close>

definition nodata_cell :: "dtype \<Rightarrow> real \<Rightarrow> real \<Rightarrow> bool" where
  "nodata_cell dt nodata v =
     (if dt = Float_dtype then \<bar>v - nodata\<bar> \<le> 1 / 100000000 + \<bar>nodata\<bar> / 100000
      else v = nodata)"

definition mask2 :: "real list list ndarray \<Rightarrow> real \<Rightarrow> marray2" where
  "mask2 arr nodata =
     \<lparr>ma_dtype = dtype arr, ma_data = cells arr,
      ma_mask = map (map (nodata_cell (dtype arr) nodata)) (cells arr)\<rparr>"

definition mask3 :: "real list list list ndarray \<Rightarrow> real \<Rightarrow> marray3" where
  "mask3 arr nodata =
     \<lparr>ma_dtype = dtype arr, ma_data = cells arr,
      ma_mask = map (map (map (nodata_cell (dtype arr) nodata))) (cells arr)\<rparr>"

definition masked_array2 :: "real list list ndarray \<Rightarrow> marray2" where
  "masked_array2 arr =
     \<lparr>ma_dtype = dtype arr, ma_data = cells arr,
      ma_mask = map (map (\<lambda>_. False)) (cells arr)\<rparr>"

definition masked_array3 :: "real list list list ndarray \<Rightarrow> marray3" where
  "masked_array3 arr =
     \<lparr>ma_dtype = dtype arr, ma_data = cells arr,
      ma_mask = map (map (map (\<lambda>_. False))) (cells arr)\<rparr>"

section \<open>Reading a window\<close>

definition linspace :: "real \<Rightarrow> real \<Rightarrow> int \<Rightarrow> error + real list" where
  "linspace start stop num =
     (if num < 0 then Inl ValueError
      else if num = 1 then Inr [start]
      else Inr (map (\<lambda>i. start + of_nat i * ((stop - start) / of_int (num - 1)))
                    [0..<nat num]))"

definition arange :: "int \<Rightarrow> int \<Rightarrow> real list" where
  "arange lo hi = map of_int [lo..hi - 1]"

definition affine_mul :: "affine \<Rightarrow> affine \<Rightarrow> affine" where
  "affine_mul s t =
     Affine (aff_a s * aff_a t + aff_b s * aff_d t)
            (aff_a s * aff_b t + aff_b s * aff_e t)
            (aff_a s * aff_c t + aff_b s * aff_f t + aff_c s)
            (aff_d s * aff_a t + aff_e s * aff_d t)
            (aff_d s * aff_b t + aff_e s * aff_e t)
            (aff_d s * aff_c t + aff_e s * aff_f t + aff_f s)"

definition Affine_scale :: "real \<Rightarrow> real \<Rightarrow> affine" where
  "Affine_scale sx sy = Affine sx 0 0 0 sy 0"

text \<open>Lines 110 to 139: the destination grid (width, height, transform).\<close>

definition dst_grid ::
  "libraries \<Rightarrow> src \<Rightarrow> bounds \<Rightarrow> bounds \<Rightarrow> crs \<Rightarrow> shape \<Rightarrow> error + real \<times> real \<times> affine" where
  "dst_grid lib src extent bnds bounds_crs shp =
     (case (extent, shp) of ((e0, e1, e2, e3), (height, width)) \<Rightarrow>
        if bounds_crs = WEB_MERCATOR_CRS then
          ebind (get_resolution_in_meters (haversine lib)
                   (src_bounds src, src_crs src) (src_height src, src_width src))
            (\<lambda>res_m.
          ebind (get_zoom (max (fst res_m) (snd res_m)) math_ceil)
            (\<lambda>zoom.
          let dst_width = (2 powi zoom) * 256;
              dst_height = (2 powi zoom) * 256;
              resolution = ((e2 - e0) / dst_width, (e3 - e1) / dst_height);
              dst_transform = Affine (fst resolution) 0 e0 0 (- snd resolution) e3
          in Inr (dst_width, dst_height, dst_transform)))
        else
          ebind (get_resolution (bnds, bounds_crs) (height, width))
            (\<lambda>resolution.
          let extent_width = e2 - e0;
              extent_height = e3 - e1
          in if fst resolution = 0 then Inl ZeroDivisionError
             else if snd resolution = 0 then Inl ZeroDivisionError
             else
               let dst_width = (1 / fst resolution) * extent_width;
                   dst_height = (1 / snd resolution) * extent_height;
                   is_odd = (width mod 2 = 1 \<or> height mod 2 = 1);
                   dst_width = (if is_odd then dst_width * 2 else dst_width);
                   dst_height = (if is_odd then dst_height * 2 else dst_height);
                   resolution = (if is_odd then (fst resolution / 2, snd resolution / 2)
                                 else resolution);
                   dst_transform = Affine (fst resolution) 0 e0 0 (- snd resolution) e3
               in Inr (dst_width, dst_height, dst_transform)))"

text \<open>
  Lines 156 to 219: the expanded window and the coordinates \<open>x\<close>, \<open>y\<close> of its pixels in
  target pixels, for the spline.
\<close>

definition spline_grid ::
  "libraries \<Rightarrow> vrt \<Rightarrow> bounds \<Rightarrow> shape \<Rightarrow> window \<Rightarrow> real \<times> real \<Rightarrow>
   error + window \<times> real list \<times> real list" where
  "spline_grid lib v bnds shp dst_window scale_factor =
     (case (shp, dst_window) of ((height, width), (r, c)) \<Rightarrow>
        let buffer_pixels = 2 :: int
        in if fst scale_factor = 0 then Inl ZeroDivisionError
           else if snd scale_factor = 0 then Inl ZeroDivisionError
           else
             let pixel = (1 / fst scale_factor, 1 / snd scale_factor);
                 buffer = (of_int buffer_pixels * fst pixel, of_int buffer_pixels * snd pixel);
                 window = from_ranges (fst r - buffer_pixels, snd r + buffer_pixels)
                                      (fst c - buffer_pixels, snd c + buffer_pixels)
             in if frac (fst scale_factor) \<noteq> 0 \<or> frac (snd scale_factor) \<noteq> 0 then
                  (let scaled_transform =
                         affine_mul (vrt_transform v)
                                    (Affine_scale (fst scale_factor) (snd scale_factor))
                   in ebind (windows_from_bounds lib bnds scaled_transform)
                        (\<lambda>target_window.
                      case target_window of (r, c) \<Rightarrow>
                      let target_window =
                            ((of_int (fst r) - of_int buffer_pixels * snd scale_factor,
                              of_int (snd r) + of_int buffer_pixels * snd scale_factor),
                             (of_int (fst c) - of_int buffer_pixels * fst scale_factor,
                              of_int (snd c) + of_int buffer_pixels * fst scale_factor));
                          data_bounds = windows_bounds lib window (vrt_transform v)
                      in ebind (windows_from_bounds lib data_bounds scaled_transform)
                           (\<lambda>data_window.
                         case (target_window, data_window) of ((tr, tc), (dr, dc)) \<Rightarrow>
                         let minx = of_int (fst dr) - fst tr;
                             miny = of_int (fst dc) - fst tc;
                             maxx = of_int width + (of_int (snd dr) - snd tr);
                             maxy = of_int height + (of_int (snd dc) - snd tc)
                         in ebind (linspace (minx - fst buffer) (maxx - fst buffer)
                                            (num_cols window))
                              (\<lambda>x.
                            ebind (linspace (miny - snd buffer) (maxy - snd buffer)
                                            (num_rows window))
                              (\<lambda>y. Inr (window, x, y))))))
                else
                  ebind (linspace (- fst buffer)
                                  (of_int (num_cols window) * fst pixel - fst buffer)
                                  (num_cols window))
                    (\<lambda>x.
                  ebind (linspace (- snd buffer)
                                  (of_int (num_rows window) * snd pixel - snd buffer)
                                  (num_rows window))
                    (\<lambda>y. Inr (window, x, y))))"

text \<open>Lines 150 to 253: the body of the \<^verbatim>\<open>with WarpedVRT(...) as vrt\<close> block.\<close>

definition read_data :: "libraries \<Rightarrow> vrt \<Rightarrow> bounds \<Rightarrow> shape \<Rightarrow> error + marray3" where
  "read_data lib v bnds shp =
     (case shp of (height, width) \<Rightarrow>
        ebind (vrt_window v bnds)
          (\<lambda>dst_window.
        if width = 0 then Inl ZeroDivisionError
        else if height = 0 then Inl ZeroDivisionError
        else
          let scale_factor = (of_int (num_cols dst_window) / of_int width,
                              of_int (num_rows dst_window) / of_int height)
          in ebind
               (if vrt_count v = 1 \<and> (fst scale_factor < 1 \<or> snd scale_factor < 1) then
                  ebind (spline_grid lib v bnds shp dst_window scale_factor)
                    (\<lambda>(window, x, y).
                  ebind (vrt_read_band v 1 window)
                    (\<lambda>data.
                  let data = (case vrt_nodata v of
                                Some nodata \<Rightarrow> mask2 data nodata
                              | None \<Rightarrow> masked_array2 data)
                  in ebind (RectBivariateSpline lib y x (ma_data data))
                       (\<lambda>interp.
                     let data = \<lparr>dtype = Float_dtype,
                                 cells = [interp (arange 0 height) (arange 0 width)]\<rparr>
                     in Inr (case vrt_nodata v of
                               Some nodata \<Rightarrow> mask3 data nodata
                             | None \<Rightarrow> masked_array3 data))))
                else
                  ebind (vrt_read v (vrt_count v, height, width) dst_window)
                    (\<lambda>data.
                  Inr (case vrt_nodata v of
                         Some nodata \<Rightarrow> mask3 data nodata
                       | None \<Rightarrow> masked_array3 data)))
               (\<lambda>data. Inr (data\<lparr>ma_dtype := Float_dtype\<rparr>))))"

text \<open>
  Lines 257 to 272: the body of the \<^verbatim>\<open>try\<close> block up to the read of the companion mask.
  The window is asked of the data view \<open>v\<close> again, as the code does.
\<close>

definition load_mask ::
  "libraries \<Rightarrow> src \<Rightarrow> vrt \<Rightarrow> bounds \<times> crs \<Rightarrow> shape \<Rightarrow> real \<times> real \<times> affine \<Rightarrow>
   error + real list list list ndarray" where
  "load_mask lib src v bc shp grid =
     (case (bc, shp, grid) of
        ((bnds, bounds_crs), (height, width), (dst_width, dst_height, dst_transform)) \<Rightarrow>
        ebind (rasterio_open lib (src_name src @ ''.msk'') (src_crs src))
          (\<lambda>mask_src.
        ebind (WarpedVRT lib mask_src
                 \<lparr>wa_src_crs = Some (src_crs src),
                  wa_src_transform = Some (src_transform src),
                  wa_src_nodata = None,
                  wa_dst_crs = bounds_crs,
                  wa_dst_width = dst_width,
                  wa_dst_height = dst_height,
                  wa_dst_transform = dst_transform,
                  wa_resampling = None\<rparr>)
          (\<lambda>mask_vrt.
        ebind (vrt_window v bnds)
          (\<lambda>dst_window.
        vrt_read mask_vrt (vrt_count v, height, width) dst_window))))"

text \<open>Lines 141 to 149: the keyword arguments of the view of the data.\<close>

definition data_view_args :: "src \<Rightarrow> crs \<Rightarrow> real \<times> real \<times> affine \<Rightarrow> warp_args" where
  "data_view_args src bounds_crs grid =
     (case grid of (dst_width, dst_height, dst_transform) \<Rightarrow>
        \<lparr>wa_src_crs = None,
         wa_src_transform = None,
         wa_src_nodata = src_nodata src,
         wa_dst_crs = bounds_crs,
         wa_dst_width = dst_width,
         wa_dst_height = dst_height,
         wa_dst_transform = dst_transform,
         wa_resampling = Some Lanczos\<rparr>)"

text \<open>
  \<^verbatim>\<open>data.mask = ~mask\<close>: the mask band is of type uint8, so \<^verbatim>\<open>~m\<close> is \<open>255 - m\<close>, and
  a cell is masked where that is not zero.  The read was asked for the shape of the data,
  so the assignment replaces the mask cell by cell.
\<close>

definition invert_mask :: "real list list list \<Rightarrow> bool list list list" where
  "invert_mask m = map (map (map (\<lambda>cell. 255 - cell \<noteq> 0))) m"

definition read_window ::
  "libraries \<Rightarrow> src \<Rightarrow> bounds \<times> crs \<Rightarrow> shape \<Rightarrow> error + marray3 \<times> (bounds \<times> crs)" where
  "read_window lib src bc shp =
     (case bc of (bnds, bounds_crs) \<Rightarrow>
        ebind (case get_extent bounds_crs of
                 Inl (KeyError _) \<Rightarrow> Inl (Exception (''Unsupported CRS: '' @ crs_str bounds_crs))
               | Inl err \<Rightarrow> Inl err
               | Inr extent \<Rightarrow> Inr extent)
          (\<lambda>extent.
        ebind (dst_grid lib src extent bnds bounds_crs shp)
          (\<lambda>grid.
        ebind (WarpedVRT lib src (data_view_args src bounds_crs grid))
          (\<lambda>v.
        ebind (read_data lib v bnds shp)
          (\<lambda>data.
        let data = (case load_mask lib src v bc shp grid of
                      Inl _ \<Rightarrow> data
                    | Inr msk \<Rightarrow> data\<lparr>ma_mask := invert_mask (cells msk)\<rparr>)
        in Inr (data, (bnds, bounds_crs)))))))"

section \<open>Render\<close>

text \<open>
  The mosaic module, the transformation and the encoder \<^verbatim>\<open>format\<close> are the caller's:
  parameters.  A transformation is a callable that may have an attribute \<^verbatim>\<open>buffer\<close>.
\<close>

record ('s, 'px) mosaic =
  get_sources :: "real list \<times> crs \<Rightarrow> real \<times> real \<Rightarrow> error + 's"
  composite ::
    "'s \<Rightarrow> real list \<times> crs \<Rightarrow> int list \<Rightarrow> crs \<Rightarrow> error + 'px list list list \<times> (bounds \<times> crs)"

record 'px transformation =
  t_call :: "'px list list list \<times> (bounds \<times> crs) \<Rightarrow> error + 'px list list list \<times> string"
  t_buffer :: "int option"

definition tuple4 :: "'a \<times> 'a \<times> 'a \<times> 'a \<Rightarrow> 'a list" where
  "tuple4 t = (case t of (t0, t1, t2, t3) \<Rightarrow> [t0, t1, t2, t3])"

text \<open>Lines 297 to 302: (effective_buffer, offset).\<close>

definition effective_buffer_offset :: "'px transformation option \<Rightarrow> int \<Rightarrow> int \<times> int" where
  "effective_buffer_offset transformation buffer =
     (case transformation of
        None \<Rightarrow> (buffer, 0)
      | Some t \<Rightarrow>
          (case t_buffer t of
             None \<Rightarrow> (buffer, 0)
           | Some tb \<Rightarrow> (buffer + tb, tb)))"

text \<open>Lines 306 to 309: the two comprehensions.\<close>

definition apply_buffer ::
  "real \<times> real \<Rightarrow> int \<Rightarrow> int list \<Rightarrow> real list \<Rightarrow> int list \<times> real list" where
  "apply_buffer resolution effective_buffer shp bnds =
     (map (\<lambda>dim. dim + 2 * effective_buffer) shp,
      map (\<lambda>(i, p).
             if i < 2 then p - of_int effective_buffer * ([fst resolution, snd resolution] ! (i mod 2))
             else p + of_int effective_buffer * ([fst resolution, snd resolution] ! (i mod 2)))
          (enumerate 0 bnds))"

text \<open>Lines 311 to 334: the four tests against the extent, in the order of the code.\<close>

definition clamp_extent ::
  "real list \<Rightarrow> int \<Rightarrow> int \<Rightarrow> real list \<Rightarrow> int list \<Rightarrow> real list \<Rightarrow>
   int list \<times> real list \<times> (int \<times> int \<times> int \<times> int)" where
  "clamp_extent extent effective_buffer offset bounds_orig shp bnds =
     (let left = offset; right = offset; bottom = offset; top' = offset;
          (shp, bnds, left) =
             (if bnds ! 0 < extent ! 0
              then (shp[1 := shp ! 1 - effective_buffer], bnds[0 := bounds_orig ! 0], 0)
              else (shp, bnds, left));
          (shp, bnds, right) =
             (if bnds ! 2 > extent ! 2
              then (shp[1 := shp ! 1 - effective_buffer], bnds[2 := bounds_orig ! 2], 0)
              else (shp, bnds, right));
          (shp, bnds, bottom) =
             (if bnds ! 1 < extent ! 1
              then (shp[0 := shp ! 0 - effective_buffer], bnds[1 := bounds_orig ! 1], 0)
              else (shp, bnds, bottom));
          (shp, bnds, top') =
             (if bnds ! 3 > extent ! 3
              then (shp[0 := shp ! 0 - effective_buffer], bnds[3 := bounds_orig ! 3], 0)
              else (shp, bnds, top'))
      in (shp, bnds, (left, right, bottom, top')))"

text \<open>Lines 336 to 352: sources, composite, transformation, crop, encoder.\<close>

definition render_finish ::
  "libraries \<Rightarrow> ('s, 'px) mosaic \<Rightarrow> crs \<Rightarrow> crs \<Rightarrow>
   ('px list list list \<times> (bounds option \<times> crs option) \<Rightarrow> string \<Rightarrow> error + 'out) \<Rightarrow>
   'px transformation option \<Rightarrow> int \<Rightarrow> real \<times> real \<Rightarrow> int \<Rightarrow>
   int list \<Rightarrow> real list \<Rightarrow> int \<times> int \<times> int \<times> int \<Rightarrow> error + 'out" where
  "render_finish lib mos bounds_crs target_crs format transformation buffer
                 resolution_m effective_buffer shp bnds offsets =
     ebind (get_sources mos (bnds, bounds_crs) resolution_m)
       (\<lambda>sources.
     ebind (composite mos sources (bnds, bounds_crs) shp target_crs)
       (\<lambda>(data, (data_bounds, data_crs)).
     ebind (case transformation of
              None \<Rightarrow> Inr (data, ''raw'')
            | Some t \<Rightarrow> t_call t (data, (data_bounds, data_crs)))
       (\<lambda>(data, data_format).
     ebind (if effective_buffer > buffer
            then crop (Window lib) (windows_bounds lib)
                      (data, (data_bounds, data_crs)) data_format offsets
            else Inr (data, (Some data_bounds, Some data_crs)))
       (\<lambda>pixels. format pixels data_format))))"

definition render ::
  "libraries \<Rightarrow> ('s, 'px) mosaic \<Rightarrow> bounds \<times> crs \<Rightarrow> shape \<Rightarrow> crs \<Rightarrow>
   ('px list list list \<times> (bounds option \<times> crs option) \<Rightarrow> string \<Rightarrow> error + 'out) \<Rightarrow>
   'px transformation option \<Rightarrow> int \<Rightarrow> error + 'out" where
  "render lib mos bc shp target_crs format transformation buffer =
     (case (bc, shp) of ((bnds, bounds_crs), (height, width)) \<Rightarrow>
        ebind (get_resolution (bnds, bounds_crs) shp)
          (\<lambda>resolution.
        ebind (get_resolution_in_meters (haversine lib) (bnds, bounds_crs) shp)
          (\<lambda>resolution_m.
        case effective_buffer_offset transformation buffer of (effective_buffer, offset) \<Rightarrow>
        let bounds_orig = tuple4 bnds
        in case apply_buffer resolution effective_buffer [height, width] bounds_orig of
             (shp1, bnds1) \<Rightarrow>
        ebind (get_extent bounds_crs)
          (\<lambda>extent.
        case clamp_extent (tuple4 extent) effective_buffer offset bounds_orig shp1 bnds1 of
          (shp2, bnds2, offsets) \<Rightarrow>
        render_finish lib mos bounds_crs target_crs format transformation buffer
                      resolution_m effective_buffer shp2 bnds2 offsets))))"

section \<open>Example collaborators\<close>

text \<open>
  Concrete stand-ins for the libraries and the caller's functions, on which the theorems
  below are instantiated.  The example view returns arrays of the shape it is asked for;
  the example source named \<open>coarse\<close> has one band and a window half the size of the
  request, any other example source has three bands and a window of the size of the
  request.  No companion mask can be opened.
\<close>

definition example_vrt :: "int \<Rightarrow> window \<Rightarrow> vrt" where
  "example_vrt bands win =
     \<lparr>vrt_count = bands,
      vrt_nodata = Some 0,
      vrt_transform = Affine 1 0 (- 180) 0 (- 1) 90,
      vrt_window = (\<lambda>bnds. Inr win),
      vrt_read_band = (\<lambda>index w.
         Inr \<lparr>dtype = Float_dtype,
              cells = replicate (nat (num_rows w)) (replicate (nat (num_cols w)) 1)\<rparr>),
      vrt_read = (\<lambda>out_shape w.
         case out_shape of (d0, d1, d2) \<Rightarrow>
         if d0 < 0 \<or> d1 < 0 \<or> d2 < 0 then Inl ValueError
         else Inr \<lparr>dtype = Integer_dtype,
                   cells = replicate (nat d0) (replicate (nat d1) (replicate (nat d2) 1))\<rparr>)\<rparr>"

definition example_src :: "string \<Rightarrow> src" where
  "example_src name =
     \<lparr>src_bounds = (0, 0, 4, 4), src_crs = WGS84_CRS, src_height = 4, src_width = 4,
      src_nodata = Some 0, src_name = name, src_transform = Affine 1 0 0 0 (- 1) 4\<rparr>"

definition example_lib :: libraries where
  "example_lib =
     \<lparr>haversine = (\<lambda>p q. 1),
      rasterio_open = (\<lambda>name crs. Inl (LibraryError ''No such file'')),
      WarpedVRT = (\<lambda>s args.
         if src_name s = ''coarse'' then Inr (example_vrt 1 ((88, 89), (180, 181)))
         else Inr (example_vrt 3 ((88, 90), (180, 182)))),
      windows_from_bounds = (\<lambda>bnds t. Inr ((88, 90), (180, 182))),
      windows_bounds = (\<lambda>w t. (- 2, - 1, 3, 4)),
      Window = (\<lambda>col_off row_off w h. ((row_off, row_off + h), (col_off, col_off + w))),
      RectBivariateSpline = (\<lambda>y x z. Inr (\<lambda>ys xs. map (\<lambda>_. map (\<lambda>_. 1) xs) ys))\<rparr>"

text \<open>
  The example mosaic returns one band of the shape it is asked for, the cell in row \<open>i\<close>
  and column \<open>j\<close> holding \<open>10 * i + j\<close>; the example transformation declares a buffer of
  4 and turns the band into a channel-last image of three equal channels; the example
  encoder returns what it is given.
\<close>

definition example_mosaic :: "(unit, int) mosaic" where
  "example_mosaic =
     \<lparr>get_sources = (\<lambda>bc resolution_m. Inr ()),
      composite = (\<lambda>sources bc shp target_crs.
         Inr ([map (\<lambda>i. map (\<lambda>j. 10 * i + j) [0..shp ! 1 - 1]) [0..shp ! 0 - 1]],
              ((fst bc ! 0, fst bc ! 1, fst bc ! 2, fst bc ! 3), target_crs)))\<rparr>"

definition example_rgb :: "int transformation" where
  "example_rgb =
     \<lparr>t_call = (\<lambda>(data, bc). Inr (map (map (\<lambda>v. [v, v, v])) (hd data), ''RGB'')),
      t_buffer = Some 4\<rparr>"

definition example_format ::
  "int list list list \<times> (bounds option \<times> crs option) \<Rightarrow> string \<Rightarrow>
   error + (int list list list \<times> (bounds option \<times> crs option)) \<times> string" where
  "example_format pixels data_format = Inr (pixels, data_format)"

section \<open>Basic facts\<close>

lemma ebind_Inl [simp]: "ebind (Inl err) f = Inl err"
  by (simp add: ebind_def)

lemma ebind_Inr [simp]: "ebind (Inr x) f = f x"
  by (simp add: ebind_def)

lemma EXTENTS_keys: "fst ` set EXTENTS = {crs_str WEB_MERCATOR_CRS, crs_str WGS84_CRS}"
  by (simp add: EXTENTS_def)

lemma get_extent_WGS84: "get_extent WGS84_CRS = Inr (- 180, - 90, 180, 90)"
  by (simp add: get_extent_def EXTENTS_def WEB_MERCATOR_CRS_def WGS84_CRS_def)

lemma get_extent_Inr_iff:
  "(\<exists>extent. get_extent crs = Inr extent) \<longleftrightarrow> crs_str crs \<in> fst ` set EXTENTS"
  unfolding get_extent_def
  by (auto simp: map_of_eq_None_iff split: option.splits dest: map_of_SomeD intro: rev_image_eqI)

lemma get_extent_unregistered:
  "crs_str crs \<notin> fst ` set EXTENTS \<Longrightarrow> get_extent crs = Inl (KeyError (crs_str crs))"
  unfolding get_extent_def by (simp add: map_of_eq_None_iff[symmetric])

lemma get_resolution_nonzero:
  "width \<noteq> 0 \<Longrightarrow> height \<noteq> 0 \<Longrightarrow>
   get_resolution ((west, south, east, north), crs) (height, width) =
     Inr (\<bar>(east - west) / of_int width\<bar>, \<bar>(south - north) / of_int height\<bar>)"
  by (simp add: get_resolution_def from_bounds_def Affine_def)

lemma get_resolution_in_meters_nonzero:
  "width \<noteq> 0 \<Longrightarrow> height \<noteq> 0 \<Longrightarrow>
   \<exists>res. get_resolution_in_meters hav (bnds, crs) (height, width) = Inr res"
  by (cases bnds) (simp add: get_resolution_in_meters_def get_resolution_nonzero Let_def)

section \<open>The extent registry\<close>

text \<open>
  C7.  The lookup succeeds for the two registered systems, web mercator and WGS84, and for
  no other key.  For an unregistered system \<open>get_extent\<close> raises the \<^verbatim>\<open>KeyError\<close> of the
  lookup, \<open>read_window\<close> raises \<^verbatim>\<open>Exception("Unsupported CRS: ...")\<close> before anything
  else happens, and \<open>render\<close>, which reaches the lookup once the two resolutions are
  computed (nonzero height and width), lets the \<^verbatim>\<open>KeyError\<close> through: the failure the
  design calls \<open>UnsupportedCRS\<close>.
\<close>

theorem get_extent_registered_else_unsupported:
  "get_extent WEB_MERCATOR_CRS =
     Inr (- 20037508.342789244, - 20037508.342789244, 20037508.342789244, 20037508.342789244)
   \<and> get_extent WGS84_CRS = Inr (- 180, - 90, 180, 90)
   \<and> ((\<exists>extent. get_extent crs = Inr extent) \<longleftrightarrow>
        crs_str crs \<in> {crs_str WEB_MERCATOR_CRS, crs_str WGS84_CRS})
   \<and> (crs_str crs \<notin> {crs_str WEB_MERCATOR_CRS, crs_str WGS84_CRS} \<longrightarrow>
        get_extent crs = Inl (KeyError (crs_str crs))
        \<and> read_window lib src (bnds, crs) shp =
            Inl (Exception (''Unsupported CRS: '' @ crs_str crs))
        \<and> (height \<noteq> 0 \<and> width \<noteq> 0 \<longrightarrow>
             render lib mos (bnds, crs) (height, width) target_crs format transformation buffer =
               Inl (KeyError (crs_str crs))))"
proof (intro conjI impI)
  show "get_extent WEB_MERCATOR_CRS =
     Inr (- 20037508.342789244, - 20037508.342789244, 20037508.342789244, 20037508.342789244)"
    by (simp add: get_extent_def EXTENTS_def WEB_MERCATOR_CRS_def WGS84_CRS_def)
  show "get_extent WGS84_CRS = Inr (- 180, - 90, 180, 90)"
    by (rule get_extent_WGS84)
  show "(\<exists>extent. get_extent crs = Inr extent) \<longleftrightarrow>
        crs_str crs \<in> {crs_str WEB_MERCATOR_CRS, crs_str WGS84_CRS}"
    by (simp only: get_extent_Inr_iff EXTENTS_keys)
next
  assume "crs_str crs \<notin> {crs_str WEB_MERCATOR_CRS, crs_str WGS84_CRS}"
  then have un: "get_extent crs = Inl (KeyError (crs_str crs))"
    by (intro get_extent_unregistered) (simp add: EXTENTS_keys)
  show "get_extent crs = Inl (KeyError (crs_str crs))"
    by (rule un)
  show "read_window lib src (bnds, crs) shp =
            Inl (Exception (''Unsupported CRS: '' @ crs_str crs))"
    by (simp add: read_window_def un)
  assume nz: "height \<noteq> 0 \<and> width \<noteq> 0"
  obtain res where r: "get_resolution (bnds, crs) (height, width) = Inr res"
    using nz by (cases bnds) (simp add: get_resolution_nonzero)
  obtain res_m where
    m: "get_resolution_in_meters (haversine lib) (bnds, crs) (height, width) = Inr res_m"
    using nz get_resolution_in_meters_nonzero by blast
  show "render lib mos (bnds, crs) (height, width) target_crs format transformation buffer =
               Inl (KeyError (crs_str crs))"
    by (simp add: render_def r m un split: prod.splits)
qed

theorem get_extent_registered_else_unsupported_witness:
  "crs_str (CRS ''EPSG:32633'' False) \<notin> {crs_str WEB_MERCATOR_CRS, crs_str WGS84_CRS}
   \<and> get_extent (CRS ''EPSG:32633'' False) = Inl (KeyError ''EPSG:32633'')
   \<and> read_window example_lib (example_src ''fine'')
        ((500000, 0, 500256, 256), CRS ''EPSG:32633'' False) (256, 256) =
      Inl (Exception ''Unsupported CRS: EPSG:32633'')
   \<and> (256 :: int) \<noteq> 0
   \<and> render example_lib example_mosaic ((500000, 0, 500256, 256), CRS ''EPSG:32633'' False)
        (256, 256) WGS84_CRS example_format None 0 = Inl (KeyError ''EPSG:32633'')"
  using get_extent_registered_else_unsupported
    [of "CRS ''EPSG:32633'' False" example_lib "example_src ''fine''"
        "(500000, 0, 500256, 256)" "(256, 256)" 256 256 example_mosaic WGS84_CRS
        example_format None 0]
  by (simp add: WEB_MERCATOR_CRS_def WGS84_CRS_def)

section \<open>Resolution in meters\<close>

text \<open>
  C8.  With a zero width or a zero height \<open>get_resolution_in_meters\<close> fails, for a
  geographic and for a projected system alike: the division by the zero dimension raises
  \<^verbatim>\<open>ZeroDivisionError\<close>, the failure the design calls \<open>InvalidShape\<close>.  For a projected
  system it is \<open>get_resolution\<close>, and with nonzero dimensions that is a value.
\<close>

theorem get_resolution_in_meters_zero_dim_and_projected:
  "(width = 0 \<or> height = 0 \<longrightarrow>
      get_resolution_in_meters hav (bnds, crs) (height, width) = Inl ZeroDivisionError)
   \<and> (\<not> is_geographic crs \<longrightarrow>
        get_resolution_in_meters hav (bnds, crs) (height, width) =
          get_resolution (bnds, crs) (height, width))
   \<and> (\<not> is_geographic crs \<and> width \<noteq> 0 \<and> height \<noteq> 0 \<longrightarrow>
        (\<exists>xres yres. get_resolution_in_meters hav (bnds, crs) (height, width) =
                        Inr (xres, yres)))"
proof (intro conjI impI)
  assume "width = 0 \<or> height = 0"
  then show "get_resolution_in_meters hav (bnds, crs) (height, width) = Inl ZeroDivisionError"
    by (auto simp: get_resolution_in_meters_def get_resolution_def from_bounds_def Let_def
             split: prod.splits)
next
  assume "\<not> is_geographic crs"
  then show "get_resolution_in_meters hav (bnds, crs) (height, width) =
          get_resolution (bnds, crs) (height, width)"
    by (auto simp: get_resolution_in_meters_def split: prod.splits)
next
  assume "\<not> is_geographic crs \<and> width \<noteq> 0 \<and> height \<noteq> 0"
  then show "\<exists>xres yres. get_resolution_in_meters hav (bnds, crs) (height, width) =
                        Inr (xres, yres)"
    using get_resolution_in_meters_nonzero [of width height hav bnds crs] by auto
qed

theorem get_resolution_in_meters_zero_dim_and_projected_witness:
  "((0 :: int) = 0 \<or> (256 :: int) = 0)
   \<and> get_resolution_in_meters (haversine example_lib) ((0, 0, 512, 256), WGS84_CRS) (256, 0) =
       Inl ZeroDivisionError
   \<and> get_resolution_in_meters (haversine example_lib) ((0, 0, 512, 256), WEB_MERCATOR_CRS) (256, 0) =
       Inl ZeroDivisionError
   \<and> \<not> is_geographic WEB_MERCATOR_CRS \<and> (256 :: int) \<noteq> 0
   \<and> get_resolution_in_meters (haversine example_lib) ((0, 0, 512, 256), WEB_MERCATOR_CRS) (256, 256) =
       get_resolution ((0, 0, 512, 256), WEB_MERCATOR_CRS) (256, 256)
   \<and> get_resolution ((0, 0, 512, 256), WEB_MERCATOR_CRS) (256, 256) = Inr (2, 1)"
  using get_resolution_in_meters_zero_dim_and_projected
          [of 0 256 "haversine example_lib" "(0, 0, 512, 256)" WGS84_CRS]
        get_resolution_in_meters_zero_dim_and_projected
          [of 0 256 "haversine example_lib" "(0, 0, 512, 256)" WEB_MERCATOR_CRS]
        get_resolution_in_meters_zero_dim_and_projected
          [of 256 256 "haversine example_lib" "(0, 0, 512, 256)" WEB_MERCATOR_CRS]
  by (simp add: WEB_MERCATOR_CRS_def get_resolution_nonzero)

section \<open>Zoom\<close>

text \<open>
  Bounds on \<open>pi\<close> to six decimals, from Machin's formula and the alternating series of
  the arctangent.
\<close>

lemma arctan_partial_sums:
  fixes x :: real
  assumes "0 \<le> x" "x \<le> 1"
  shows "(\<Sum>k<2 * n. (- 1) ^ k * (1 / real (k * 2 + 1) * x ^ (k * 2 + 1))) \<le> arctan x"
    and "arctan x \<le> (\<Sum>k<2 * n + 1. (- 1) ^ k * (1 / real (k * 2 + 1) * x ^ (k * 2 + 1)))"
proof -
  define t where "t = (\<lambda>k. 1 / real (k * 2 + 1) * x ^ (k * 2 + 1))"
  have z: "t \<longlonglongrightarrow> 0"
    unfolding t_def using assms by (intro zeroseq_arctan_series) simp
  have p: "0 \<le> t k" for k
    unfolding t_def using assms by simp
  have d: "t (Suc k) \<le> t k" for k
  proof -
    have "x ^ (Suc k * 2 + 1) \<le> x ^ (k * 2 + 1)"
      using assms by (intro power_decreasing) simp_all
    moreover have "1 / real (Suc k * 2 + 1) \<le> 1 / real (k * 2 + 1)"
      by (simp add: field_simps)
    ultimately show ?thesis
      unfolding t_def using assms by (intro mult_mono) simp_all
  qed
  have s: "arctan x = (\<Sum>k. (- 1) ^ k * t k)"
    unfolding t_def using assms by (intro arctan_series) simp
  have "(\<Sum>k<2 * n. (- 1) ^ k * t k) \<le> arctan x"
    unfolding s by (rule summable_Leibniz'(2)[of t, OF z p d])
  then show "(\<Sum>k<2 * n. (- 1) ^ k * (1 / real (k * 2 + 1) * x ^ (k * 2 + 1))) \<le> arctan x"
    by (simp add: t_def)
  have "arctan x \<le> (\<Sum>k<2 * n + 1. (- 1) ^ k * t k)"
    unfolding s by (rule summable_Leibniz'(4)[of t, OF z p d])
  then show "arctan x \<le> (\<Sum>k<2 * n + 1. (- 1) ^ k * (1 / real (k * 2 + 1) * x ^ (k * 2 + 1)))"
    by (simp add: t_def)
qed

lemma pi_bounds: "3.141592 < pi" "pi < 3.141593"
proof -
  have m: "pi = 16 * arctan (1 / 5) - 4 * arctan (1 / 239)"
    using machin by simp
  have l5: "(\<Sum>k<2 * 3. (- 1) ^ k * (1 / real (k * 2 + 1) * (1 / 5) ^ (k * 2 + 1))) \<le> arctan (1 / 5 :: real)"
    by (rule arctan_partial_sums) simp_all
  have u5: "arctan (1 / 5 :: real) \<le> (\<Sum>k<2 * 3 + 1. (- 1) ^ k * (1 / real (k * 2 + 1) * (1 / 5) ^ (k * 2 + 1)))"
    by (rule arctan_partial_sums) simp_all
  have l239: "(\<Sum>k<2 * 1. (- 1) ^ k * (1 / real (k * 2 + 1) * (1 / 239) ^ (k * 2 + 1))) \<le> arctan (1 / 239 :: real)"
    by (rule arctan_partial_sums) simp_all
  have u239: "arctan (1 / 239 :: real) \<le> (\<Sum>k<2 * 1 + 1. (- 1) ^ k * (1 / real (k * 2 + 1) * (1 / 239) ^ (k * 2 + 1)))"
    by (rule arctan_partial_sums) simp_all
  show "3.141592 < pi"
    using l5 u239 unfolding m by (simp add: eval_nat_numeral)
  show "pi < 3.141593"
    using u5 l239 unfolding m by (simp add: eval_nat_numeral)
qed

lemma py_int_mono: "py_int x \<le> py_int y" if "x \<le> y"
proof -
  have "\<lceil>x\<rceil> \<le> \<lfloor>y\<rfloor>" if "x < 0" "0 \<le> y"
  proof -
    have "\<lceil>x\<rceil> \<le> 0" using that by (simp add: ceiling_le_iff)
    moreover have "0 \<le> \<lfloor>y\<rfloor>" using that by simp
    ultimately show ?thesis by linarith
  qed
  then show ?thesis
    using that unfolding py_int_def by (auto intro: floor_mono ceiling_mono simp: not_le)
qed

lemma py_round_mono: "mono py_round"
  unfolding py_round_def mono_def by (auto intro!: floor_mono ceiling_mono) linarith+

lemma math_ceil_mono: "mono math_ceil"
  unfolding math_ceil_def mono_def by (auto intro!: ceiling_mono)

lemma get_zoom_log2:
  assumes "0 < r"
  shows "get_zoom r op = Inr (py_int (op (log 2 (2 * pi * 6378137 / (r * 256)))))"
  using assms by (simp add: get_zoom_def math_log_def log_def not_le)

lemma get_zoom_antimono:
  assumes "mono op" "0 < r1" "r1 \<le> r2"
  shows "\<exists>z1 z2. get_zoom r1 op = Inr z1 \<and> get_zoom r2 op = Inr z2 \<and> z2 \<le> z1"
proof -
  have "2 * pi * 6378137 / (r2 * 256) \<le> 2 * pi * 6378137 / (r1 * 256)"
    using assms by (intro divide_left_mono) simp_all
  moreover have "0 < 2 * pi * 6378137 / (r2 * 256)"
    using assms by simp
  ultimately have "log 2 (2 * pi * 6378137 / (r2 * 256)) \<le> log 2 (2 * pi * 6378137 / (r1 * 256))"
    by simp
  then have "py_int (op (log 2 (2 * pi * 6378137 / (r2 * 256)))) \<le> py_int (op (log 2 (2 * pi * 6378137 / (r1 * 256))))"
    using assms(1) by (intro py_int_mono) (simp add: monoD)
  then show ?thesis
    using assms by (simp add: get_zoom_log2)
qed

lemma reference_resolution: "156543 < 2 * pi * 6378137 / 256" "2 * pi * 6378137 / 256 < 156544"
  using pi_bounds by simp_all

lemma get_zoom_156543: "get_zoom 156543 py_round = Inr 0"
proof -
  define q where "q = 2 * pi * 6378137 / (156543 * 256)"
  have q1: "1 \<le> q" and q2: "q < 7 / 5"
    unfolding q_def using pi_bounds by simp_all
  have l0: "0 \<le> log 2 q"
    using q1 by simp
  have "q * q < 2"
  proof -
    have "q * q \<le> (7 / 5) * (7 / 5)"
      using q1 q2 by (intro mult_mono) simp_all
    then show ?thesis by simp
  qed
  then have "log 2 (q * q) < log 2 2"
    using q1 by (subst log_less_cancel_iff) simp_all
  then have l1: "log 2 q < 1 / 2"
    using q1 by (simp add: log_mult)
  have "py_int (py_round (log 2 q)) = 0"
    using l0 l1 by (simp add: py_int_def py_round_def floor_eq_iff)
  then show ?thesis
    by (simp add: get_zoom_log2 q_def)
qed

text \<open>
  C9.  For a positive resolution, \<open>get_zoom\<close> is the rounding function applied to
  \<open>log\<^sub>2 (2 \<pi> 6378137 / (256 resolution))\<close>, cast to an integer.  For a monotone
  rounding function (Python's \<^verbatim>\<open>round\<close> and \<^verbatim>\<open>math.ceil\<close> are) the zoom does not increase
  when the resolution increases.  The zoom is 0 at the reference resolution
  \<open>2 \<pi> 6378137 / 256\<close>, which lies between 156543 and 156544, and rounds to 0 at 156543.
\<close>

theorem get_zoom_log2_monotone_reference:
  "(0 < r \<longrightarrow> get_zoom r op = Inr (py_int (op (log 2 (2 * pi * 6378137 / (r * 256))))))
   \<and> (mono op \<and> 0 < r1 \<and> r1 \<le> r2 \<longrightarrow>
        (\<exists>z1 z2. get_zoom r1 op = Inr z1 \<and> get_zoom r2 op = Inr z2 \<and> z2 \<le> z1))
   \<and> mono py_round \<and> mono math_ceil
   \<and> (op 0 = 0 \<longrightarrow> get_zoom (2 * pi * 6378137 / 256) op = Inr 0)
   \<and> 156543 < 2 * pi * 6378137 / 256 \<and> 2 * pi * 6378137 / 256 < 156544
   \<and> get_zoom 156543 py_round = Inr 0"
proof (intro conjI impI)
  assume "0 < r"
  then show "get_zoom r op = Inr (py_int (op (log 2 (2 * pi * 6378137 / (r * 256)))))"
    by (rule get_zoom_log2)
next
  assume "mono op \<and> 0 < r1 \<and> r1 \<le> r2"
  then show "\<exists>z1 z2. get_zoom r1 op = Inr z1 \<and> get_zoom r2 op = Inr z2 \<and> z2 \<le> z1"
    by (intro get_zoom_antimono) simp_all
next
  assume "op 0 = 0"
  then show "get_zoom (2 * pi * 6378137 / 256) op = Inr 0"
    by (simp add: get_zoom_log2 py_int_def)
qed (rule py_round_mono math_ceil_mono reference_resolution get_zoom_156543)+

theorem get_zoom_log2_monotone_reference_witness:
  "(0 :: real) < 10 \<and> mono math_ceil \<and> (10 :: real) \<le> 20 \<and> math_ceil 0 = 0
   \<and> get_zoom 10 math_ceil = Inr (py_int (math_ceil (log 2 (2 * pi * 6378137 / (10 * 256)))))
   \<and> (\<exists>z1 z2. get_zoom 10 math_ceil = Inr z1 \<and> get_zoom 20 math_ceil = Inr z2 \<and> z2 \<le> z1)
   \<and> get_zoom (2 * pi * 6378137 / 256) math_ceil = Inr 0"
proof -
  note zoom = get_zoom_log2_monotone_reference [of 10 math_ceil 10 20]
  from zoom have "mono math_ceil"
    by blast
  with zoom show ?thesis
    by (auto simp: math_ceil_def)
qed

section \<open>Render: buffer and extent\<close>

lemma apply_buffer_lists:
  "apply_buffer (xres, yres) eb [height, width] [left, bottom, right, top'] =
     ([height + 2 * eb, width + 2 * eb],
      [left - of_int eb * xres, bottom - of_int eb * yres,
       right + of_int eb * xres, top' + of_int eb * yres])"
proof -
  have "enumerate 0 [left, bottom, right, top'] = [(0, left), (1, bottom), (2, right), (3, top')]"
    by (simp add: numeral_2_eq_2 numeral_3_eq_3)
  then show ?thesis
    by (simp add: apply_buffer_def)
qed

lemma clamp_extent_lists:
  "clamp_extent [e0, e1, e2, e3] eb offset [o0, o1, o2, o3] [h, w] [b0, b1, b2, b3] =
     ([h - (if b1 < e1 then eb else 0) - (if e3 < b3 then eb else 0),
       w - (if b0 < e0 then eb else 0) - (if e2 < b2 then eb else 0)],
      [if b0 < e0 then o0 else b0, if b1 < e1 then o1 else b1,
       if e2 < b2 then o2 else b2, if e3 < b3 then o3 else b3],
      (if b0 < e0 then 0 else offset, if e2 < b2 then 0 else offset,
       if b1 < e1 then 0 else offset, if e3 < b3 then 0 else offset))"
  by (simp add: clamp_extent_def Let_def eval_nat_numeral)

lemma render_geometry:
  assumes "get_resolution ((left, bottom, right, top'), crs) (height, width) = Inr (xres, yres)"
    and "get_resolution_in_meters (haversine lib) ((left, bottom, right, top'), crs)
           (height, width) = Inr res_m"
    and "get_extent crs = Inr (e0, e1, e2, e3)"
    and "effective_buffer_offset transformation buffer = (eb, offset)"
  shows "render lib mos ((left, bottom, right, top'), crs) (height, width) target_crs format
           transformation buffer =
         (case clamp_extent [e0, e1, e2, e3] eb offset [left, bottom, right, top']
                 [height + 2 * eb, width + 2 * eb]
                 [left - of_int eb * xres, bottom - of_int eb * yres,
                  right + of_int eb * xres, top' + of_int eb * yres] of
            (shp2, bnds2, offsets) \<Rightarrow>
              render_finish lib mos crs target_crs format transformation buffer res_m eb
                shp2 bnds2 offsets)"
  unfolding render_def
  by (simp only: prod.case assms ebind_Inr Let_def tuple4_def apply_buffer_lists)

lemma render_clamped:
  assumes "get_resolution ((left, bottom, right, top'), crs) (height, width) = Inr (xres, yres)"
    and "get_resolution_in_meters (haversine lib) ((left, bottom, right, top'), crs)
           (height, width) = Inr res_m"
    and "get_extent crs = Inr (e0, e1, e2, e3)"
    and "effective_buffer_offset transformation buffer = (eb, offset)"
    and "b0 = left - of_int eb * xres" "b1 = bottom - of_int eb * yres"
    and "b2 = right + of_int eb * xres" "b3 = top' + of_int eb * yres"
  shows "render lib mos ((left, bottom, right, top'), crs) (height, width) target_crs format
           transformation buffer =
         render_finish lib mos crs target_crs format transformation buffer res_m eb
           [height + 2 * eb - (if b1 < e1 then eb else 0) - (if e3 < b3 then eb else 0),
            width + 2 * eb - (if b0 < e0 then eb else 0) - (if e2 < b2 then eb else 0)]
           [if b0 < e0 then left else b0, if b1 < e1 then bottom else b1,
            if e2 < b2 then right else b2, if e3 < b3 then top' else b3]
           (if b0 < e0 then 0 else offset, if e2 < b2 then 0 else offset,
            if b1 < e1 then 0 else offset, if e3 < b3 then 0 else offset)"
  unfolding render_geometry [OF assms(1-4)] assms(5-8) [symmetric]
  by (simp only: clamp_extent_lists prod.case)


lemma get_resolution_in_meters_example:
  "get_resolution_in_meters (haversine example_lib) ((l, b, r, t), WGS84_CRS) (1, 2) = Inr (500, 1000)"
  by (simp add: get_resolution_in_meters_def example_lib_def WGS84_CRS_def)

text \<open>
  C3.  The effective buffer is the caller's buffer plus the buffer the transformation
  declares (0 without a transformation or without a declared buffer), and the offset is the
  declared buffer.  The two comprehensions add twice the effective buffer to the height and
  to the width and move left and bottom down, right and top up, by the effective buffer
  times the resolution of the axis (x for left and right, y for bottom and top).  In
  \<open>render\<close> these buffered values, computed from the resolution of the unbuffered
  request, are what the test against the extent receives.
\<close>

theorem render_buffer_expansion:
  fixes transformation :: "'px transformation option"
    and mos :: "('s, 'px) mosaic"
    and format :: "'px list list list \<times> (bounds option \<times> crs option) \<Rightarrow> string \<Rightarrow> error + 'out"
  defines "declared \<equiv> (case transformation of None \<Rightarrow> 0
                          | Some t \<Rightarrow> (case t_buffer t of None \<Rightarrow> 0 | Some tb \<Rightarrow> tb))"
  shows
  "effective_buffer_offset transformation buffer = (buffer + declared, declared)
   \<and> apply_buffer (xres, yres) eb [height, width] [left, bottom, right, top'] =
       ([height + 2 * eb, width + 2 * eb],
        [left - of_int eb * xres, bottom - of_int eb * yres,
         right + of_int eb * xres, top' + of_int eb * yres])
   \<and> (width \<noteq> 0 \<and> height \<noteq> 0 \<and> get_extent crs = Inr (e0, e1, e2, e3) \<longrightarrow>
        (\<exists>x_res y_res res_m.
           get_resolution ((left, bottom, right, top'), crs) (height, width) = Inr (x_res, y_res)
           \<and> get_resolution_in_meters (haversine lib) ((left, bottom, right, top'), crs)
                (height, width) = Inr res_m
           \<and> render lib mos ((left, bottom, right, top'), crs) (height, width) target_crs format
                transformation buffer =
              (case clamp_extent [e0, e1, e2, e3] (buffer + declared) declared
                      [left, bottom, right, top']
                      [height + 2 * (buffer + declared), width + 2 * (buffer + declared)]
                      [left - of_int (buffer + declared) * x_res,
                       bottom - of_int (buffer + declared) * y_res,
                       right + of_int (buffer + declared) * x_res,
                       top' + of_int (buffer + declared) * y_res] of
                 (shp2, bnds2, offsets) \<Rightarrow>
                   render_finish lib mos crs target_crs format transformation buffer res_m
                     (buffer + declared) shp2 bnds2 offsets)))"
proof (intro conjI impI)
  show ebo: "effective_buffer_offset transformation buffer = (buffer + declared, declared)"
    by (simp add: effective_buffer_offset_def declared_def split: option.splits)
  show "apply_buffer (xres, yres) eb [height, width] [left, bottom, right, top'] =
       ([height + 2 * eb, width + 2 * eb],
        [left - of_int eb * xres, bottom - of_int eb * yres,
         right + of_int eb * xres, top' + of_int eb * yres])"
    by (rule apply_buffer_lists)
  assume a: "width \<noteq> 0 \<and> height \<noteq> 0 \<and> get_extent crs = Inr (e0, e1, e2, e3)"
  obtain res_m where
    m: "get_resolution_in_meters (haversine lib) ((left, bottom, right, top'), crs)
          (height, width) = Inr res_m"
    using a get_resolution_in_meters_nonzero by blast
  obtain x_res y_res where
    r: "get_resolution ((left, bottom, right, top'), crs) (height, width) = Inr (x_res, y_res)"
    using a get_resolution_nonzero by blast
  from a have e: "get_extent crs = Inr (e0, e1, e2, e3)"
    by simp
  show "\<exists>x_res y_res res_m.
           get_resolution ((left, bottom, right, top'), crs) (height, width) = Inr (x_res, y_res)
           \<and> get_resolution_in_meters (haversine lib) ((left, bottom, right, top'), crs)
                (height, width) = Inr res_m
           \<and> render lib mos ((left, bottom, right, top'), crs) (height, width) target_crs format
                transformation buffer =
              (case clamp_extent [e0, e1, e2, e3] (buffer + declared) declared
                      [left, bottom, right, top']
                      [height + 2 * (buffer + declared), width + 2 * (buffer + declared)]
                      [left - of_int (buffer + declared) * x_res,
                       bottom - of_int (buffer + declared) * y_res,
                       right + of_int (buffer + declared) * x_res,
                       top' + of_int (buffer + declared) * y_res] of
                 (shp2, bnds2, offsets) \<Rightarrow>
                   render_finish lib mos crs target_crs format transformation buffer res_m
                     (buffer + declared) shp2 bnds2 offsets)"
    using r m render_geometry [OF r m e ebo] by blast
qed

theorem render_buffer_expansion_witness:
  "(2 :: int) \<noteq> 0 \<and> (1 :: int) \<noteq> 0 \<and> get_extent WGS84_CRS = Inr (- 180, - 90, 180, 90)
   \<and> effective_buffer_offset (Some example_rgb) 0 = (4, 4)
   \<and> render example_lib example_mosaic ((0, 0, 4, 2), WGS84_CRS) (1, 2) WGS84_CRS
        example_format (Some example_rgb) 0 =
      render_finish example_lib example_mosaic WGS84_CRS WGS84_CRS example_format
        (Some example_rgb) 0 (500, 1000) 4 [9, 10] [- 8, - 8, 12, 10] (4, 4, 4, 4)"
  using render_buffer_expansion
          [where transformation = "Some example_rgb" and buffer = 0 and width = 2
             and height = 1 and crs = WGS84_CRS and ?e0.0 = "- 180" and ?e1.0 = "- 90"
             and ?e2.0 = 180 and ?e3.0 = 90 and left = 0 and bottom = 0 and right = 4
             and top' = 2 and lib = example_lib and mos = example_mosaic
             and target_crs = WGS84_CRS and format = example_format]
  by (simp add: get_extent_WGS84 example_rgb_def get_resolution_nonzero
        get_resolution_in_meters_example clamp_extent_lists)

text \<open>
  C2.  Each of the four tests against the extent acts on its own edge: exactly when the
  buffered bound lies beyond the extent on that edge, the bound becomes the unbuffered one,
  the dimension of that axis (the width for left and right, the height for bottom and
  top) loses the effective buffer once, and the crop offset of that side is 0; otherwise
  the bound stays buffered and the offset stays the transformation's buffer.  When exactly
  one edge is beyond the extent only that edge changes.  \<open>render\<close> hands these clamped
  values to the mosaic and to the crop.
\<close>

theorem render_clamps_each_edge:
  fixes transformation :: "'px transformation option"
    and mos :: "('s, 'px) mosaic"
    and format :: "'px list list list \<times> (bounds option \<times> crs option) \<Rightarrow> string \<Rightarrow> error + 'out"
  shows
  "clamp_extent [e0, e1, e2, e3] eb offset [o0, o1, o2, o3] [h, w] [b0, b1, b2, b3] =
     ([h - (if b1 < e1 then eb else 0) - (if e3 < b3 then eb else 0),
       w - (if b0 < e0 then eb else 0) - (if e2 < b2 then eb else 0)],
      [if b0 < e0 then o0 else b0, if b1 < e1 then o1 else b1,
       if e2 < b2 then o2 else b2, if e3 < b3 then o3 else b3],
      (if b0 < e0 then 0 else offset, if e2 < b2 then 0 else offset,
       if b1 < e1 then 0 else offset, if e3 < b3 then 0 else offset))
   \<and> (b0 < e0 \<and> \<not> e2 < b2 \<and> \<not> b1 < e1 \<and> \<not> e3 < b3 \<longrightarrow>
        clamp_extent [e0, e1, e2, e3] eb offset [o0, o1, o2, o3] [h, w] [b0, b1, b2, b3] =
          ([h, w - eb], [o0, b1, b2, b3], (0, offset, offset, offset)))
   \<and> (\<not> b0 < e0 \<and> e2 < b2 \<and> \<not> b1 < e1 \<and> \<not> e3 < b3 \<longrightarrow>
        clamp_extent [e0, e1, e2, e3] eb offset [o0, o1, o2, o3] [h, w] [b0, b1, b2, b3] =
          ([h, w - eb], [b0, b1, o2, b3], (offset, 0, offset, offset)))
   \<and> (\<not> b0 < e0 \<and> \<not> e2 < b2 \<and> b1 < e1 \<and> \<not> e3 < b3 \<longrightarrow>
        clamp_extent [e0, e1, e2, e3] eb offset [o0, o1, o2, o3] [h, w] [b0, b1, b2, b3] =
          ([h - eb, w], [b0, o1, b2, b3], (offset, offset, 0, offset)))
   \<and> (\<not> b0 < e0 \<and> \<not> e2 < b2 \<and> \<not> b1 < e1 \<and> e3 < b3 \<longrightarrow>
        clamp_extent [e0, e1, e2, e3] eb offset [o0, o1, o2, o3] [h, w] [b0, b1, b2, b3] =
          ([h - eb, w], [b0, b1, b2, o3], (offset, offset, offset, 0)))
   \<and> (get_resolution ((left, bottom, right, top'), crs) (height, width) = Inr (xres, yres)
        \<and> get_resolution_in_meters (haversine lib) ((left, bottom, right, top'), crs)
             (height, width) = Inr res_m
        \<and> get_extent crs = Inr (e0, e1, e2, e3)
        \<and> effective_buffer_offset transformation buffer = (eb, offset)
        \<and> b0 = left - of_int eb * xres \<and> b1 = bottom - of_int eb * yres
        \<and> b2 = right + of_int eb * xres \<and> b3 = top' + of_int eb * yres \<longrightarrow>
        render lib mos ((left, bottom, right, top'), crs) (height, width) target_crs format
          transformation buffer =
        render_finish lib mos crs target_crs format transformation buffer res_m eb
          [height + 2 * eb - (if b1 < e1 then eb else 0) - (if e3 < b3 then eb else 0),
           width + 2 * eb - (if b0 < e0 then eb else 0) - (if e2 < b2 then eb else 0)]
          [if b0 < e0 then left else b0, if b1 < e1 then bottom else b1,
           if e2 < b2 then right else b2, if e3 < b3 then top' else b3]
          (if b0 < e0 then 0 else offset, if e2 < b2 then 0 else offset,
           if b1 < e1 then 0 else offset, if e3 < b3 then 0 else offset))"
proof (intro conjI impI)
  show "clamp_extent [e0, e1, e2, e3] eb offset [o0, o1, o2, o3] [h, w] [b0, b1, b2, b3] =
     ([h - (if b1 < e1 then eb else 0) - (if e3 < b3 then eb else 0),
       w - (if b0 < e0 then eb else 0) - (if e2 < b2 then eb else 0)],
      [if b0 < e0 then o0 else b0, if b1 < e1 then o1 else b1,
       if e2 < b2 then o2 else b2, if e3 < b3 then o3 else b3],
      (if b0 < e0 then 0 else offset, if e2 < b2 then 0 else offset,
       if b1 < e1 then 0 else offset, if e3 < b3 then 0 else offset))"
    by (rule clamp_extent_lists)
next
  assume "b0 < e0 \<and> \<not> e2 < b2 \<and> \<not> b1 < e1 \<and> \<not> e3 < b3"
  then show "clamp_extent [e0, e1, e2, e3] eb offset [o0, o1, o2, o3] [h, w] [b0, b1, b2, b3] =
          ([h, w - eb], [o0, b1, b2, b3], (0, offset, offset, offset))"
    by (simp add: clamp_extent_lists)
next
  assume "\<not> b0 < e0 \<and> e2 < b2 \<and> \<not> b1 < e1 \<and> \<not> e3 < b3"
  then show "clamp_extent [e0, e1, e2, e3] eb offset [o0, o1, o2, o3] [h, w] [b0, b1, b2, b3] =
          ([h, w - eb], [b0, b1, o2, b3], (offset, 0, offset, offset))"
    by (simp add: clamp_extent_lists)
next
  assume "\<not> b0 < e0 \<and> \<not> e2 < b2 \<and> b1 < e1 \<and> \<not> e3 < b3"
  then show "clamp_extent [e0, e1, e2, e3] eb offset [o0, o1, o2, o3] [h, w] [b0, b1, b2, b3] =
          ([h - eb, w], [b0, o1, b2, b3], (offset, offset, 0, offset))"
    by (simp add: clamp_extent_lists)
next
  assume "\<not> b0 < e0 \<and> \<not> e2 < b2 \<and> \<not> b1 < e1 \<and> e3 < b3"
  then show "clamp_extent [e0, e1, e2, e3] eb offset [o0, o1, o2, o3] [h, w] [b0, b1, b2, b3] =
          ([h - eb, w], [b0, b1, b2, o3], (offset, offset, offset, 0))"
    by (simp add: clamp_extent_lists)
next
  assume a: "get_resolution ((left, bottom, right, top'), crs) (height, width) = Inr (xres, yres)
        \<and> get_resolution_in_meters (haversine lib) ((left, bottom, right, top'), crs)
             (height, width) = Inr res_m
        \<and> get_extent crs = Inr (e0, e1, e2, e3)
        \<and> effective_buffer_offset transformation buffer = (eb, offset)
        \<and> b0 = left - of_int eb * xres \<and> b1 = bottom - of_int eb * yres
        \<and> b2 = right + of_int eb * xres \<and> b3 = top' + of_int eb * yres"
  show "render lib mos ((left, bottom, right, top'), crs) (height, width) target_crs format
          transformation buffer =
        render_finish lib mos crs target_crs format transformation buffer res_m eb
          [height + 2 * eb - (if b1 < e1 then eb else 0) - (if e3 < b3 then eb else 0),
           width + 2 * eb - (if b0 < e0 then eb else 0) - (if e2 < b2 then eb else 0)]
          [if b0 < e0 then left else b0, if b1 < e1 then bottom else b1,
           if e2 < b2 then right else b2, if e3 < b3 then top' else b3]
          (if b0 < e0 then 0 else offset, if e2 < b2 then 0 else offset,
           if b1 < e1 then 0 else offset, if e3 < b3 then 0 else offset)"
    by (rule render_clamped) (use a in blast)+
qed

theorem render_clamps_each_edge_witness:
  "\<not> (168 :: real) < - 180 \<and> (180 :: real) < 188 \<and> \<not> (- 8 :: real) < - 90 \<and> \<not> (90 :: real) < 10
   \<and> clamp_extent [- 180, - 90, 180, 90] 4 4 [176, 0, 180, 2] [9, 10] [168, - 8, 188, 10] =
        ([9, 6], [168, - 8, 180, 10], (4, 0, 4, 4))
   \<and> get_resolution ((176, 0, 180, 2), WGS84_CRS) (1, 2) = Inr (2, 2)
   \<and> get_resolution_in_meters (haversine example_lib) ((176, 0, 180, 2), WGS84_CRS) (1, 2) =
        Inr (500, 1000)
   \<and> get_extent WGS84_CRS = Inr (- 180, - 90, 180, 90)
   \<and> effective_buffer_offset (Some example_rgb) 0 = (4, 4)
   \<and> render example_lib example_mosaic ((176, 0, 180, 2), WGS84_CRS) (1, 2) WGS84_CRS
        example_format (Some example_rgb) 0 =
      render_finish example_lib example_mosaic WGS84_CRS WGS84_CRS example_format
        (Some example_rgb) 0 (500, 1000) 4 [9, 6] [168, - 8, 180, 10] (4, 0, 4, 4)"
  using render_clamps_each_edge
          [where transformation = "Some example_rgb" and buffer = 0 and width = 2
             and height = 1 and crs = WGS84_CRS and ?e0.0 = "- 180" and ?e1.0 = "- 90"
             and ?e2.0 = 180 and ?e3.0 = 90 and left = 176 and bottom = 0 and right = 180
             and top' = 2 and lib = example_lib and mos = example_mosaic
             and target_crs = WGS84_CRS and format = example_format
             and ?b0.0 = 168 and ?b1.0 = "- 8" and ?b2.0 = 188 and ?b3.0 = 10
             and eb = 4 and offset = 4 and xres = 2 and yres = 2 and res_m = "(500, 1000)"
             and ?o0.0 = 176 and ?o1.0 = 0 and ?o2.0 = 180 and ?o3.0 = 2 and h = 9 and w = 10]
  by (simp add: get_extent_WGS84 example_rgb_def get_resolution_nonzero
        get_resolution_in_meters_example effective_buffer_offset_def)

section \<open>Reading a window: shape and companion mask\<close>

lemma ebind_eq_Inr: "ebind m f = Inr y \<longleftrightarrow> (\<exists>x. m = Inr x \<and> f x = Inr y)"
  by (cases m) simp_all

lemma length_arange: "0 \<le> n \<Longrightarrow> int (length (arange 0 n)) = n"
  by (simp add: arange_def)

lemma read_data_shape:
  assumes reads: "\<forall>out_shape w arr. vrt_read v out_shape w = Inr arr \<longrightarrow>
                    has_shape3 (cells arr) out_shape"
    and spline: "\<forall>y x z interp ys xs. RectBivariateSpline lib y x z = Inr interp \<longrightarrow>
                    has_shape2 (interp ys xs) (int (length ys), int (length xs))"
    and pos: "0 < height" "0 < width"
    and rd: "read_data lib v bnds (height, width) = Inr data"
  shows "has_shape3 (ma_data data) (vrt_count v, height, width) \<and> ma_dtype data = Float_dtype"
proof -
  from rd obtain dst_window raw where
    w: "vrt_window v bnds = Inr dst_window"
    and raw: "(if vrt_count v = 1 \<and>
                  (of_int (num_cols dst_window) / of_int width < (1 :: real) \<or>
                   of_int (num_rows dst_window) / of_int height < (1 :: real))
               then ebind (spline_grid lib v bnds (height, width) dst_window
                             (of_int (num_cols dst_window) / of_int width,
                              of_int (num_rows dst_window) / of_int height))
                      (\<lambda>(window, x, y).
                    ebind (vrt_read_band v 1 window)
                      (\<lambda>data.
                    let data = (case vrt_nodata v of
                                  Some nodata \<Rightarrow> mask2 data nodata
                                | None \<Rightarrow> masked_array2 data)
                    in ebind (RectBivariateSpline lib y x (ma_data data))
                         (\<lambda>interp.
                       let data = \<lparr>dtype = Float_dtype,
                                   cells = [interp (arange 0 height) (arange 0 width)]\<rparr>
                       in Inr (case vrt_nodata v of
                                 Some nodata \<Rightarrow> mask3 data nodata
                               | None \<Rightarrow> masked_array3 data))))
               else ebind (vrt_read v (vrt_count v, height, width) dst_window)
                      (\<lambda>data.
                    Inr (case vrt_nodata v of
                           Some nodata \<Rightarrow> mask3 data nodata
                         | None \<Rightarrow> masked_array3 data))) = Inr raw"
    and d: "data = raw\<lparr>ma_dtype := Float_dtype\<rparr>"
    using pos by (auto simp: read_data_def ebind_eq_Inr Let_def)
  have "has_shape3 (ma_data raw) (vrt_count v, height, width)"
  proof (cases "vrt_count v = 1 \<and>
                  (of_int (num_cols dst_window) / of_int width < (1 :: real) \<or>
                   of_int (num_rows dst_window) / of_int height < (1 :: real))")
    case True
    with raw obtain interp y x z where
      i: "RectBivariateSpline lib y x z = Inr interp"
      and r: "ma_data raw = [interp (arange 0 height) (arange 0 width)]"
      by (auto simp: ebind_eq_Inr Let_def mask3_def masked_array3_def split: option.splits)
    from spline i have "has_shape2 (interp (arange 0 height) (arange 0 width))
                          (int (length (arange 0 height)), int (length (arange 0 width)))"
      by blast
    with pos r True show ?thesis
      by (simp add: has_shape3_def length_arange)
  next
    case False
    with raw obtain arr where
      a: "vrt_read v (vrt_count v, height, width) dst_window = Inr arr"
      and r: "ma_data raw = cells arr"
      by (auto simp: ebind_eq_Inr mask3_def masked_array3_def split: option.splits)
    from reads a have "has_shape3 (cells arr) (vrt_count v, height, width)"
      by blast
    with r show ?thesis
      by simp
  qed
  with d show ?thesis
    by simp
qed


lemma read_window_steps:
  assumes "get_extent crs = Inr extent"
    and "dst_grid lib src extent bnds crs shp = Inr grid"
    and "WarpedVRT lib src (data_view_args src crs grid) = Inr v"
    and "read_data lib v bnds shp = Inr raw"
  shows "read_window lib src (bnds, crs) shp =
           Inr (case load_mask lib src v (bnds, crs) shp grid of
                  Inl _ \<Rightarrow> raw
                | Inr msk \<Rightarrow> raw\<lparr>ma_mask := invert_mask (cells msk)\<rparr>,
                (bnds, crs))"
  using assms by (simp add: read_window_def)

lemma read_window_Inr:
  assumes "read_window lib src (bnds, crs) shp = Inr (data, echo)"
  shows "\<exists>extent grid v raw.
           get_extent crs = Inr extent
           \<and> dst_grid lib src extent bnds crs shp = Inr grid
           \<and> WarpedVRT lib src (data_view_args src crs grid) = Inr v
           \<and> read_data lib v bnds shp = Inr raw
           \<and> data = (case load_mask lib src v (bnds, crs) shp grid of
                       Inl _ \<Rightarrow> raw
                     | Inr msk \<Rightarrow> raw\<lparr>ma_mask := invert_mask (cells msk)\<rparr>)
           \<and> echo = (bnds, crs)"
proof (cases "get_extent crs")
  case (Inl err)
  with assms show ?thesis
    by (cases err) (simp_all add: read_window_def)
next
  case extent: (Inr extent)
  show ?thesis
  proof (cases "dst_grid lib src extent bnds crs shp")
    case (Inl err)
    with assms extent show ?thesis
      by (simp add: read_window_def)
  next
    case grid: (Inr grid)
    show ?thesis
    proof (cases "WarpedVRT lib src (data_view_args src crs grid)")
      case (Inl err)
      with assms extent grid show ?thesis
        by (simp add: read_window_def)
    next
      case v: (Inr v)
      show ?thesis
      proof (cases "read_data lib v bnds shp")
        case (Inl err)
        with assms extent grid v show ?thesis
          by (simp add: read_window_def)
      next
        case raw: (Inr raw)
        from assms have "data = (case load_mask lib src v (bnds, crs) shp grid of
                                   Inl _ \<Rightarrow> raw
                                 | Inr msk \<Rightarrow> raw\<lparr>ma_mask := invert_mask (cells msk)\<rparr>)
                         \<and> echo = (bnds, crs)"
          unfolding read_window_steps [OF extent grid v raw] by auto
        with extent grid v raw show ?thesis
          by blast
      qed
    qed
  qed
qed

lemma mask_update_keeps_data:
  "ma_data (case m of Inl err \<Rightarrow> raw | Inr msk \<Rightarrow> raw\<lparr>ma_mask := f msk\<rparr>) = ma_data raw"
  "ma_dtype (case m of Inl err \<Rightarrow> raw | Inr msk \<Rightarrow> raw\<lparr>ma_mask := f msk\<rparr>) = ma_dtype raw"
  by (cases m; simp)+

text \<open>
  C1.  Let the raster-access capability honour \<^verbatim>\<open>out_shape\<close> (a read that returns, returns an
  array of the shape asked for) and give every view of the source \<open>bands\<close> bands, and let the
  spline evaluated on two grids return one value for each pair of grid points.  Then, for a
  positive height and width, whatever \<open>read_window\<close> returns is a float array of shape
  (bands, height, width) together with the (bounds, CRS) pair it was given, on the spline
  path and on the direct path alike.  The example after the theorem runs both paths.
\<close>

theorem read_window_shape:
  assumes views: "\<forall>args v. WarpedVRT lib src args = Inr v \<longrightarrow>
                    vrt_count v = bands \<and>
                    (\<forall>out_shape w arr. vrt_read v out_shape w = Inr arr \<longrightarrow>
                       has_shape3 (cells arr) out_shape)"
    and spline: "\<forall>y x z interp ys xs. RectBivariateSpline lib y x z = Inr interp \<longrightarrow>
                    has_shape2 (interp ys xs) (int (length ys), int (length xs))"
    and pos: "0 < height" "0 < width"
    and rw: "read_window lib src (bnds, crs) (height, width) = Inr (data, echo)"
  shows "has_shape3 (ma_data data) (bands, height, width)
         \<and> ma_dtype data = Float_dtype \<and> echo = (bnds, crs)"
proof -
  from read_window_Inr [OF rw] obtain grid v raw where
    v: "WarpedVRT lib src (data_view_args src crs grid) = Inr v"
    and rd: "read_data lib v bnds (height, width) = Inr raw"
    and d: "data = (case load_mask lib src v (bnds, crs) (height, width) grid of
                       Inl _ \<Rightarrow> raw
                     | Inr msk \<Rightarrow> raw\<lparr>ma_mask := invert_mask (cells msk)\<rparr>)"
    and e: "echo = (bnds, crs)"
    by blast
  from views v have c: "vrt_count v = bands"
    and reads: "\<forall>out_shape w arr. vrt_read v out_shape w = Inr arr \<longrightarrow>
                  has_shape3 (cells arr) out_shape"
    by blast+
  from read_data_shape [OF reads spline pos rd] c e show ?thesis
    unfolding d by (simp add: mask_update_keeps_data)
qed


lemma example_views:
  "\<forall>args v. WarpedVRT example_lib (example_src name) args = Inr v \<longrightarrow>
              vrt_count v = (if name = ''coarse'' then 1 else 3) \<and>
              (\<forall>out_shape w arr. vrt_read v out_shape w = Inr arr \<longrightarrow>
                 has_shape3 (cells arr) out_shape)"
  by (auto simp: example_lib_def example_src_def example_vrt_def has_shape3_def has_shape2_def
        list_all_iff split: if_splits)

lemma example_spline:
  "\<forall>y x z interp ys xs. RectBivariateSpline example_lib y x z = Inr interp \<longrightarrow>
                   has_shape2 (interp ys xs) (int (length ys), int (length xs))"
  by (auto simp: example_lib_def has_shape2_def list_all_iff)

lemma dst_grid_example:
  "dst_grid example_lib (example_src name) (- 180, - 90, 180, 90) (0, 0, 2, 2) WGS84_CRS (2, 2) =
     Inr (360, 180, Affine 1 0 (- 180) 0 (- 1) 90)"
  by (simp add: dst_grid_def get_resolution_def from_bounds_def Affine_def WGS84_CRS_def
        WEB_MERCATOR_CRS_def)

lemma read_data_example_fine:
  "read_data example_lib (example_vrt 3 ((88, 90), (180, 182))) (0, 0, 2, 2) (2, 2) =
     Inr \<lparr>ma_dtype = Float_dtype,
          ma_data = [[[1, 1], [1, 1]], [[1, 1], [1, 1]], [[1, 1], [1, 1]]],
          ma_mask = [[[False, False], [False, False]], [[False, False], [False, False]],
                     [[False, False], [False, False]]]\<rparr>"
  by (simp add: read_data_def example_vrt_def num_cols_def num_rows_def mask3_def
        nodata_cell_def eval_nat_numeral)

lemma read_data_example_coarse:
  "read_data example_lib (example_vrt 1 ((88, 89), (180, 181))) (0, 0, 2, 2) (2, 2) =
     Inr \<lparr>ma_dtype = Float_dtype, ma_data = [[[1, 1], [1, 1]]],
          ma_mask = [[[False, False], [False, False]]]\<rparr>"
  by (simp add: read_data_def spline_grid_def example_vrt_def example_lib_def from_ranges_def
        num_cols_def num_rows_def linspace_def Let_def mask3_def mask2_def nodata_cell_def
        arange_def upto.simps)

lemma load_mask_example:
  "load_mask example_lib src v bc shp grid = Inl (LibraryError ''No such file'')"
  by (simp add: load_mask_def example_lib_def split: prod.splits)

lemma read_window_example_fine:
  "read_window example_lib (example_src ''fine'') ((0, 0, 2, 2), WGS84_CRS) (2, 2) =
     Inr (\<lparr>ma_dtype = Float_dtype,
           ma_data = [[[1, 1], [1, 1]], [[1, 1], [1, 1]], [[1, 1], [1, 1]]],
           ma_mask = [[[False, False], [False, False]], [[False, False], [False, False]],
                      [[False, False], [False, False]]]\<rparr>,
          ((0, 0, 2, 2), WGS84_CRS))"
proof -
  have "WarpedVRT example_lib (example_src ''fine'')
          (data_view_args (example_src ''fine'') WGS84_CRS (360, 180, Affine 1 0 (- 180) 0 (- 1) 90)) =
        Inr (example_vrt 3 ((88, 90), (180, 182)))"
    by (simp add: example_lib_def example_src_def)
  from read_window_steps [OF get_extent_WGS84 dst_grid_example this read_data_example_fine]
  show ?thesis
    by (simp add: load_mask_example)
qed

lemma read_window_example_coarse:
  "read_window example_lib (example_src ''coarse'') ((0, 0, 2, 2), WGS84_CRS) (2, 2) =
     Inr (\<lparr>ma_dtype = Float_dtype, ma_data = [[[1, 1], [1, 1]]],
           ma_mask = [[[False, False], [False, False]]]\<rparr>,
          ((0, 0, 2, 2), WGS84_CRS))"
proof -
  have "WarpedVRT example_lib (example_src ''coarse'')
          (data_view_args (example_src ''coarse'') WGS84_CRS (360, 180, Affine 1 0 (- 180) 0 (- 1) 90)) =
        Inr (example_vrt 1 ((88, 89), (180, 181)))"
    by (simp add: example_lib_def example_src_def)
  from read_window_steps [OF get_extent_WGS84 dst_grid_example this read_data_example_coarse]
  show ?thesis
    by (simp add: load_mask_example)
qed

theorem read_window_shape_witness:
  "(0 :: int) < 2
   \<and> read_window example_lib (example_src ''coarse'') ((0, 0, 2, 2), WGS84_CRS) (2, 2) =
       Inr (\<lparr>ma_dtype = Float_dtype, ma_data = [[[1, 1], [1, 1]]],
             ma_mask = [[[False, False], [False, False]]]\<rparr>,
            ((0, 0, 2, 2), WGS84_CRS))
   \<and> has_shape3 [[[1, 1], [1, 1 :: real]]] (1, 2, 2)
   \<and> read_window example_lib (example_src ''fine'') ((0, 0, 2, 2), WGS84_CRS) (2, 2) =
       Inr (\<lparr>ma_dtype = Float_dtype,
             ma_data = [[[1, 1], [1, 1]], [[1, 1], [1, 1]], [[1, 1], [1, 1]]],
             ma_mask = [[[False, False], [False, False]], [[False, False], [False, False]],
                        [[False, False], [False, False]]]\<rparr>,
            ((0, 0, 2, 2), WGS84_CRS))
   \<and> has_shape3 [[[1, 1], [1, 1]], [[1, 1], [1, 1]], [[1, 1], [1, 1 :: real]]] (3, 2, 2)"
proof -
  have pos: "(0 :: int) < 2"
    by simp
  have one: "\<forall>args v. WarpedVRT example_lib (example_src ''coarse'') args = Inr v \<longrightarrow>
               vrt_count v = 1 \<and>
               (\<forall>out_shape w arr. vrt_read v out_shape w = Inr arr \<longrightarrow>
                  has_shape3 (cells arr) out_shape)"
    using example_views [of "''coarse''"] by simp
  have three: "\<forall>args v. WarpedVRT example_lib (example_src ''fine'') args = Inr v \<longrightarrow>
               vrt_count v = 3 \<and>
               (\<forall>out_shape w arr. vrt_read v out_shape w = Inr arr \<longrightarrow>
                  has_shape3 (cells arr) out_shape)"
    using example_views [of "''fine''"] by simp
  note coarse = read_window_shape [OF one example_spline pos pos read_window_example_coarse]
  note fine = read_window_shape [OF three example_spline pos pos read_window_example_fine]
  from coarse fine show ?thesis
    by (simp add: read_window_example_coarse read_window_example_fine)
qed


lemma load_mask_open_fails:
  "rasterio_open lib (src_name src @ ''.msk'') (src_crs src) = Inl err \<Longrightarrow>
   load_mask lib src v (bnds, crs) shp grid = Inl err"
  by (simp add: load_mask_def split: prod.splits)

text \<open>
  C6.  Once the data has been read, a failure anywhere in the \<^verbatim>\<open>try\<close> block of the companion
  mask (opening \<^verbatim>\<open>name.msk\<close>, warping it, asking for the window, reading it) is swallowed:
  \<open>read_window\<close> returns the data with the mask derived from nodata, unchanged.  Whatever
  the mask path does, \<open>read_window\<close> returns normally with the values that were read.
\<close>

theorem read_window_mask_failure_recovered:
  assumes "get_extent crs = Inr extent"
    and "dst_grid lib src extent bnds crs shp = Inr grid"
    and "WarpedVRT lib src (data_view_args src crs grid) = Inr v"
    and "read_data lib v bnds shp = Inr data"
  shows "(load_mask lib src v (bnds, crs) shp grid = Inl err \<longrightarrow>
            read_window lib src (bnds, crs) shp = Inr (data, (bnds, crs)))
         \<and> (rasterio_open lib (src_name src @ ''.msk'') (src_crs src) = Inl err \<longrightarrow>
              read_window lib src (bnds, crs) shp = Inr (data, (bnds, crs)))
         \<and> (\<exists>d. read_window lib src (bnds, crs) shp = Inr (d, (bnds, crs))
                \<and> ma_data d = ma_data data \<and> ma_dtype d = ma_dtype data)"
proof (intro conjI impI)
  note steps = read_window_steps [OF assms]
  show "read_window lib src (bnds, crs) shp = Inr (data, (bnds, crs))"
    if "load_mask lib src v (bnds, crs) shp grid = Inl err"
    using that by (simp add: steps)
  show "read_window lib src (bnds, crs) shp = Inr (data, (bnds, crs))"
    if "rasterio_open lib (src_name src @ ''.msk'') (src_crs src) = Inl err"
    using load_mask_open_fails [OF that] by (simp add: steps)
  show "\<exists>d. read_window lib src (bnds, crs) shp = Inr (d, (bnds, crs))
                \<and> ma_data d = ma_data data \<and> ma_dtype d = ma_dtype data"
    by (simp add: steps mask_update_keeps_data)
qed

theorem read_window_mask_failure_recovered_witness:
  "get_extent WGS84_CRS = Inr (- 180, - 90, 180, 90)
   \<and> dst_grid example_lib (example_src ''fine'') (- 180, - 90, 180, 90) (0, 0, 2, 2) WGS84_CRS (2, 2) =
       Inr (360, 180, Affine 1 0 (- 180) 0 (- 1) 90)
   \<and> rasterio_open example_lib (src_name (example_src ''fine'') @ ''.msk'')
        (src_crs (example_src ''fine'')) = Inl (LibraryError ''No such file'')
   \<and> read_window example_lib (example_src ''fine'') ((0, 0, 2, 2), WGS84_CRS) (2, 2) =
       Inr (\<lparr>ma_dtype = Float_dtype,
             ma_data = [[[1, 1], [1, 1]], [[1, 1], [1, 1]], [[1, 1], [1, 1]]],
             ma_mask = [[[False, False], [False, False]], [[False, False], [False, False]],
                        [[False, False], [False, False]]]\<rparr>,
            ((0, 0, 2, 2), WGS84_CRS))"
proof -
  have view: "WarpedVRT example_lib (example_src ''fine'')
          (data_view_args (example_src ''fine'') WGS84_CRS (360, 180, Affine 1 0 (- 180) 0 (- 1) 90)) =
        Inr (example_vrt 3 ((88, 90), (180, 182)))"
    by (simp add: example_lib_def example_src_def)
  have no_mask: "rasterio_open example_lib (src_name (example_src ''fine'') @ ''.msk'')
        (src_crs (example_src ''fine'')) = Inl (LibraryError ''No such file'')"
    by (simp add: example_lib_def)
  from read_window_mask_failure_recovered
         [OF get_extent_WGS84 dst_grid_example view read_data_example_fine,
          of "LibraryError ''No such file''"] no_mask
  show ?thesis
    by (simp add: get_extent_WGS84 dst_grid_example)
qed

section \<open>Crop and the axes of an image\<close>

lemma isimage_RGB: "isimage ''RGB''" "isimage ''RGBA''" "\<not> isimage ''raw''"
  by (simp_all add: isimage_def upper_char_def char_of_def)

lemma crop_image:
  "isimage data_format \<Longrightarrow> shape3 data = (d0, d1, d2) \<Longrightarrow>
   crop W B (data, (bnds, data_crs)) data_format (left, right, bottom, top') =
     Inr (map (py_slice left (d0 - right)) (py_slice top' (d1 - bottom) data), (None, None))"
  by (simp add: crop_def)

lemma crop_raw:
  "\<not> isimage data_format \<Longrightarrow> shape3 data = (d0, height, width) \<Longrightarrow>
   from_bounds bnds width height = Inr t \<Longrightarrow>
   crop W B (data, (bnds, data_crs)) data_format (left, right, bottom, top') =
     Inr (map (\<lambda>band. map (py_slice left (width - right)) (py_slice top' (height - bottom) band))
              data,
          (Some (B (W left top' (slice_len top' (height - bottom) height)
                                (slice_len left (width - right) width)) t),
           Some data_crs))"
  by (simp add: crop_def Let_def)

lemma crop_gate:
  "effective_buffer_offset transformation buffer = (eb, offset) \<Longrightarrow> buffer < eb \<longleftrightarrow> 0 < offset"
  by (auto simp: effective_buffer_offset_def split: option.splits)

lemma shape3_has_shape3:
  "has_shape3 arr (d0, d1, d2) \<Longrightarrow> 0 < d0 \<Longrightarrow> 0 < d1 \<Longrightarrow> shape3 arr = (d0, d1, d2)"
  by (cases arr; cases "hd arr") (auto simp: has_shape3_def has_shape2_def shape3_def)

lemma py_slice_all: "int (length xs) = n \<Longrightarrow> py_slice 0 n xs = xs"
  by (auto simp: py_slice_def slice_index_def)

lemma crop_raw_zero_offsets:
  assumes "\<not> isimage data_format" "has_shape3 data (d0, height, width)"
    and "0 < d0" "0 < height" "0 < width"
  shows "\<exists>b. crop W B (data, (bnds, data_crs)) data_format (0, 0, 0, 0) = Inr (data, b)"
proof -
  have s: "shape3 data = (d0, height, width)"
    using assms by (intro shape3_has_shape3)
  obtain t where t: "from_bounds bnds width height = Inr t"
    using assms by (cases bnds) (simp add: from_bounds_def)
  have "map (\<lambda>band. map (py_slice 0 width) (py_slice 0 height band)) data = data"
    using assms(2)
    by (intro map_idI) (auto simp: has_shape3_def has_shape2_def list_all_iff py_slice_all
                          intro!: map_idI)
  then show ?thesis
    using crop_raw [OF assms(1) s t, of W B data_crs 0 0 0 0] by simp
qed

lemma crop_square_image_zero_offsets:
  assumes "isimage data_format" "has_shape3 data (n, n, d2)" "0 < n"
  shows "crop W B (data, (bnds, data_crs)) data_format (0, 0, 0, 0) = Inr (data, (None, None))"
proof -
  have s: "shape3 data = (n, n, d2)"
    using assms by (intro shape3_has_shape3)
  have "map (py_slice 0 n) (py_slice 0 n data) = data"
    using assms(2)
    by (auto simp: has_shape3_def has_shape2_def list_all_iff py_slice_all intro!: map_idI)
  then show ?thesis
    using crop_image [OF assms(1) s, of W B bnds data_crs 0 0 0 0] by simp
qed

lemma length_py_slice_margin:
  assumes "0 \<le> lo" "0 \<le> hi" "0 \<le> n" "int (length xs) = n + lo + hi"
  shows "int (length (py_slice lo (int (length xs) - hi) xs)) = n"
  using assms by (auto simp: py_slice_def slice_index_def min_def Let_def)

lemma crop_raw_shape:
  assumes raw: "\<not> isimage data_format"
    and shape: "has_shape3 data (d0, height + top' + bottom, width + left + right)"
    and pos: "0 < d0" "0 < height" "0 < width"
    and off: "0 \<le> left" "0 \<le> right" "0 \<le> bottom" "0 \<le> top'"
  shows "\<exists>data' b. crop W B (data, (bnds, data_crs)) data_format (left, right, bottom, top') =
                     Inr (data', b) \<and> has_shape3 data' (d0, height, width)"
proof -
  let ?H = "height + top' + bottom" and ?W = "width + left + right"
  have s: "shape3 data = (d0, ?H, ?W)"
    using shape pos off by (intro shape3_has_shape3) simp_all
  obtain t where t: "from_bounds bnds ?W ?H = Inr t"
    using pos off by (cases bnds) (simp add: from_bounds_def)
  have rows: "int (length (py_slice top' (?H - bottom) band)) = height"
    if "band \<in> set data" for band
  proof -
    from shape that have l: "int (length band) = height + top' + bottom"
      by (auto simp: has_shape3_def has_shape2_def list_all_iff)
    from length_py_slice_margin [OF off(4) off(3) _ l] pos l show ?thesis
      by simp
  qed
  have cols: "int (length (py_slice left (?W - right) line)) = width"
    if "band \<in> set data" "line \<in> set (py_slice top' (?H - bottom) band)" for band line
  proof -
    from that(2) have "line \<in> set band"
      by (auto simp: py_slice_def Let_def dest: in_set_takeD in_set_dropD)
    with shape that(1) have l: "int (length line) = width + left + right"
      by (auto simp: has_shape3_def has_shape2_def list_all_iff)
    from length_py_slice_margin [OF off(1) off(2) _ l] pos l show ?thesis
      by simp
  qed
  have "has_shape3 (map (\<lambda>band. map (py_slice left (?W - right)) (py_slice top' (?H - bottom) band))
                        data) (d0, height, width)"
    using shape rows cols by (auto simp: has_shape3_def has_shape2_def list_all_iff)
  then show ?thesis
    using crop_raw [OF raw s t, of W B data_crs left right bottom top'] by simp
qed

text \<open>
  C5.  The claim: a channel-last image of shape (height, width, channels) is cut to the rows
  \<^verbatim>\<open>[top : height - bottom]\<close> and the columns \<^verbatim>\<open>[left : width - right]\<close>.  The code unpacks
  \<^verbatim>\<open>width, height, _ = data.shape\<close>, so its \<open>width\<close> is the number of rows and its \<open>height\<close> the
  number of columns (lemma \<open>crop_image\<close>); the band-first branch unpacks
  \<^verbatim>\<open>_, height, width\<close> and cuts as claimed (lemma \<open>crop_raw\<close>).  On an image of 3 rows and 4
  columns with the offsets left = 1 and right = 1, the code keeps one column where the claim
  keeps two.
\<close>

theorem crop_image_axes_swapped:
  "crop (Window example_lib) (windows_bounds example_lib)
     ([[[0], [1], [2], [3]], [[10], [11], [12], [13]], [[20], [21], [22], [23 :: int]]],
      ((0, 0, 4, 3), WGS84_CRS)) ''RGB'' (1, 1, 0, 0) =
     Inr ([[[1]], [[11]], [[21]]], (None, None))
   \<and> map (py_slice 1 (4 - 1))
         (py_slice 0 (3 - 0)
            [[[0], [1], [2], [3]], [[10], [11], [12], [13]], [[20], [21], [22], [23 :: int]]]) =
       [[[1], [2]], [[11], [12]], [[21], [22]]]"
  by (simp add: crop_image [OF isimage_RGB(1)] shape3_def py_slice_def slice_index_def)

text \<open>
  C10.  The claim: with all four offsets zero \<open>crop\<close> returns the array unchanged.  That
  holds for band-first data and for square images (lemmas \<open>crop_raw_zero_offsets\<close> and
  \<open>crop_square_image_zero_offsets\<close>).  On an image of 1 row and 2 columns the swapped axes
  of the image branch cut the columns at the number of rows: one column is lost.
\<close>

theorem crop_zero_offsets_not_identity:
  "crop (Window example_lib) (windows_bounds example_lib)
     ([[[1], [2 :: int]]], ((0, 0, 2, 1), WGS84_CRS)) ''RGB'' (0, 0, 0, 0) =
     Inr ([[[1]]], (None, None))"
  by (simp add: crop_image [OF isimage_RGB(1)] shape3_def py_slice_def slice_index_def)

lemma example_composite_9_10:
  "composite example_mosaic () ([- 8, - 8, 12, 10], WGS84_CRS) [9, 10] WGS84_CRS =
     Inr ([[[0, 1, 2, 3, 4, 5, 6, 7, 8, 9],
            [10, 11, 12, 13, 14, 15, 16, 17, 18, 19],
            [20, 21, 22, 23, 24, 25, 26, 27, 28, 29],
            [30, 31, 32, 33, 34, 35, 36, 37, 38, 39],
            [40, 41, 42, 43, 44, 45, 46, 47, 48, 49],
            [50, 51, 52, 53, 54, 55, 56, 57, 58, 59],
            [60, 61, 62, 63, 64, 65, 66, 67, 68, 69],
            [70, 71, 72, 73, 74, 75, 76, 77, 78, 79],
            [80, 81, 82, 83, 84, 85, 86, 87, 88, 89]]],
          ((- 8, - 8, 12, 10), WGS84_CRS))"
  by (simp add: example_mosaic_def upto.simps)

text \<open>
  C4.  \<open>render\<close> crops exactly when the transformation declares a positive buffer (lemma
  \<open>crop_gate\<close>), with offsets that are the declared buffer or 0 (lemma
  \<open>clamp_extent_lists\<close>).  The claim concludes that with a transformation declaring a
  buffer of 4 the margin is fully cropped, the output having the requested shape; for a
  band-first result that is so (lemma \<open>crop_raw_shape\<close>).  For a
  request of 1 row and 2 columns inside the extent, with the example transformation that
  returns an RGB image, the encoder receives 2 rows and 1 column: the cells (4, 4) and
  (5, 4) of the buffered image where the request is the cells (4, 4) and (4, 5).
\<close>

theorem render_rgb_margin_not_cropped:
  "render example_lib example_mosaic ((0, 0, 4, 2), WGS84_CRS) (1, 2) WGS84_CRS
     example_format (Some example_rgb) 0 =
     Inr (([[[44, 44, 44]], [[54, 54, 54]]], (None, None)), ''RGB'')
   \<and> shape3 [[[44, 44, 44]], [[54, 54, 54 :: int]]] = (2, 1, 3)"
proof -
  have r: "get_resolution ((0, 0, 4, 2), WGS84_CRS) (1, 2) = Inr (2, 2)"
    by (simp add: get_resolution_nonzero)
  have m: "get_resolution_in_meters (haversine example_lib) ((0, 0, 4, 2), WGS84_CRS) (1, 2) =
             Inr (500, 1000)"
    by (rule get_resolution_in_meters_example)
  have b: "effective_buffer_offset (Some example_rgb) 0 = (4, 4)"
    by (simp add: effective_buffer_offset_def example_rgb_def)
  have "render example_lib example_mosaic ((0, 0, 4, 2), WGS84_CRS) (1, 2) WGS84_CRS
          example_format (Some example_rgb) 0 =
        render_finish example_lib example_mosaic WGS84_CRS WGS84_CRS example_format
          (Some example_rgb) 0 (500, 1000) 4 [9, 10] [- 8, - 8, 12, 10] (4, 4, 4, 4)"
    by (simp add: render_clamped [OF r m get_extent_WGS84 b refl refl refl refl])
  also have "\<dots> = Inr (([[[44, 44, 44]], [[54, 54, 54]]], (None, None)), ''RGB'')"
    unfolding render_finish_def
    apply (simp add: example_mosaic_def [THEN arg_cong, of get_sources] )
    apply (simp add: example_composite_9_10 example_rgb_def example_format_def
        crop_image [OF isimage_RGB(1)] shape3_def py_slice_def slice_index_def)
    done
  finally show ?thesis
    by (simp add: shape3_def)
qed

end
